theory Spec2Isabelle
  imports Main "HOL-Library.Word"
begin

section \<open>Python values used by the two loggers\<close>

text \<open>
  The repository holds two scripts: \<^verbatim>\<open>script.py\<close> (class \<^verbatim>\<open>DebugSerialLogger\<close>, SQLite
  store) and \<^verbatim>\<open>script2.py\<close> (class \<^verbatim>\<open>AntennaSerialLogger\<close>, MySQL store, antenna tag).
  Definitions that embed a method of the first class carry the prefix \<open>dsl_\<close>, those of the
  second class the prefix \<open>asl_\<close>; what both classes share has no prefix.

  A Python \<^verbatim>\<open>bytes\<close> value is a list of 8-bit words, a Python \<^verbatim>\<open>str\<close> a list of code
  points, a clock reading a number of milliseconds.
\<close>

type_synonym byte = "8 word"
type_synonym pystr = "nat list"
type_synonym clock = int

definition str :: "string \<Rightarrow> pystr" where
  "str cs = map of_char cs"

subsection \<open>\<^verbatim>\<open>bytes.decode("utf-8")\<close>\<close>

text \<open>
  The strict decoder of Python 3: shortest-form sequences only, no surrogates, nothing
  above U+10FFFF. \<open>None\<close> stands for \<^verbatim>\<open>UnicodeDecodeError\<close>.
\<close>

definition is_cont :: "byte \<Rightarrow> bool" where
  "is_cont b = (0x80 \<le> unat b \<and> unat b \<le> 0xBF)"

definition second_lo :: "nat \<Rightarrow> nat" where
  "second_lo n = (if n = 0xE0 then 0xA0 else if n = 0xF0 then 0x90 else 0x80)"

definition second_hi :: "nat \<Rightarrow> nat" where
  "second_hi n = (if n = 0xED then 0x9F else if n = 0xF4 then 0x8F else 0xBF)"

definition second_ok :: "nat \<Rightarrow> byte \<Rightarrow> bool" where
  "second_ok n b = (second_lo n \<le> unat b \<and> unat b \<le> second_hi n)"

fun utf8_decode :: "byte list \<Rightarrow> pystr option" where
  "utf8_decode [] = Some []"
| "utf8_decode (b # bs) =
     (let n = unat b in
      if n < 0x80 then map_option ((#) n) (utf8_decode bs)
      else if 0xC2 \<le> n \<and> n \<le> 0xDF then
        (case bs of
           b1 # r \<Rightarrow>
             if is_cont b1
             then map_option ((#) ((n - 0xC0) * 64 + (unat b1 - 0x80))) (utf8_decode r)
             else None
         | _ \<Rightarrow> None)
      else if 0xE0 \<le> n \<and> n \<le> 0xEF then
        (case bs of
           b1 # b2 # r \<Rightarrow>
             if second_ok n b1 \<and> is_cont b2
             then map_option
                    ((#) ((n - 0xE0) * 4096 + (unat b1 - 0x80) * 64 + (unat b2 - 0x80)))
                    (utf8_decode r)
             else None
         | _ \<Rightarrow> None)
      else if 0xF0 \<le> n \<and> n \<le> 0xF4 then
        (case bs of
           b1 # b2 # b3 # r \<Rightarrow>
             if second_ok n b1 \<and> is_cont b2 \<and> is_cont b3
             then map_option
                    ((#) ((n - 0xF0) * 262144 + (unat b1 - 0x80) * 4096
                          + (unat b2 - 0x80) * 64 + (unat b3 - 0x80)))
                    (utf8_decode r)
             else None
         | _ \<Rightarrow> None)
      else None)"

subsection \<open>\<^verbatim>\<open>str.encode()\<close>\<close>

text \<open>
  The encoder used by \<^verbatim>\<open>send_command\<close>; \<open>None\<close> stands for \<^verbatim>\<open>UnicodeEncodeError\<close>
  (a surrogate code point).
\<close>

definition encode_cp :: "nat \<Rightarrow> byte list option" where
  "encode_cp c =
     (if c < 0x80 then Some [of_nat c]
      else if c < 0x800 then Some [of_nat (0xC0 + c div 64), of_nat (0x80 + c mod 64)]
      else if 0xD800 \<le> c \<and> c \<le> 0xDFFF then None
      else if c < 0x10000 then
        Some [of_nat (0xE0 + c div 4096), of_nat (0x80 + c div 64 mod 64),
              of_nat (0x80 + c mod 64)]
      else if c < 0x110000 then
        Some [of_nat (0xF0 + c div 262144), of_nat (0x80 + c div 4096 mod 64),
              of_nat (0x80 + c div 64 mod 64), of_nat (0x80 + c mod 64)]
      else None)"

fun utf8_encode :: "pystr \<Rightarrow> byte list option" where
  "utf8_encode [] = Some []"
| "utf8_encode (c # cs) =
     (case encode_cp c of
        None \<Rightarrow> None
      | Some bs \<Rightarrow> map_option ((@) bs) (utf8_encode cs))"

subsection \<open>\<^verbatim>\<open>str.strip()\<close> and \<^verbatim>\<open>bytes.hex()\<close>\<close>

text \<open>
  \<^verbatim>\<open>str.strip()\<close> without an argument removes every leading and every trailing
  character for which \<^verbatim>\<open>str.isspace\<close> holds.
\<close>

definition isspace :: "nat \<Rightarrow> bool" where
  "isspace c =
     ((0x09 \<le> c \<and> c \<le> 0x0D) \<or> (0x1C \<le> c \<and> c \<le> 0x20) \<or> c = 0x85 \<or> c = 0xA0
      \<or> c = 0x1680 \<or> (0x2000 \<le> c \<and> c \<le> 0x200A) \<or> c = 0x2028 \<or> c = 0x2029
      \<or> c = 0x202F \<or> c = 0x205F \<or> c = 0x3000)"

definition rstrip :: "pystr \<Rightarrow> pystr" where
  "rstrip s = rev (dropWhile isspace (rev s))"

definition strip :: "pystr \<Rightarrow> pystr" where
  "strip s = rstrip (dropWhile isspace s)"

definition hex_digit :: "nat \<Rightarrow> nat" where
  "hex_digit d = (if d < 10 then 48 + d else 87 + d)"

definition hex :: "byte list \<Rightarrow> pystr" where
  "hex bs = concat (map (\<lambda>b. [hex_digit (unat b div 16), hex_digit (unat b mod 16)]) bs)"


text \<open>\<^verbatim>\<open>str(raw_bytes)\<close> of a \<^verbatim>\<open>bytes\<close> value is its \<^verbatim>\<open>repr\<close>.\<close>

definition repr_byte :: "nat \<Rightarrow> byte \<Rightarrow> pystr" where
  "repr_byte q b =
     (let n = unat b in
      if n = q \<or> n = 0x5C then [0x5C, n]
      else if n = 0x09 then [0x5C, 0x74]
      else if n = 0x0A then [0x5C, 0x6E]
      else if n = 0x0D then [0x5C, 0x72]
      else if n < 0x20 \<or> 0x7F \<le> n then [0x5C, 0x78, hex_digit (n div 16), hex_digit (n mod 16)]
      else [n])"

definition bytes_repr :: "byte list \<Rightarrow> pystr" where
  "bytes_repr bs =
     (let q = (if 0x27 \<in> set bs \<and> 0x22 \<notin> set bs then 0x22 else 0x27)
      in [0x62, q] @ concat (map (repr_byte q) bs) @ [q])"

section \<open>Data model\<close>

text \<open>
  Exceptions that the library calls of the scripts can raise. \<open>DbError\<close> is the
  \<^verbatim>\<open>Error\<close> class of the database driver (\<^verbatim>\<open>mysql.connector.Error\<close>,
  \<^verbatim>\<open>sqlite3.Error\<close>); every constructor is a subclass of \<^verbatim>\<open>Exception\<close>.
\<close>

datatype exn =
    SerialException
  | DbError
  | UnicodeDecodeError
  | UnicodeEncodeError
  | AttributeError
  | OtherException

text \<open>
  The serial port object of pyserial: the bytes that have arrived and were not read yet
  (\<^verbatim>\<open>in_waiting\<close> is their number) and the bytes written so far.
\<close>

record serial_port =
  is_open :: bool
  rx_buffer :: "byte list"
  tx_log :: "byte list"

text \<open>
  One row of table \<^verbatim>\<open>serial_logs\<close>. The columns \<^verbatim>\<open>id\<close> and \<^verbatim>\<open>timestamp\<close> are filled by the
  store. Column \<^verbatim>\<open>antenna\<close> exists in \<^verbatim>\<open>script2.py\<close> only (\<open>None\<close> in \<^verbatim>\<open>script.py\<close>).
\<close>

record log_row =
  data :: pystr
  data_type :: string
  raw_bytes :: pystr
  byte_count :: nat
  antenna :: "int option"

text \<open>A connection object of the database driver.\<close>

record db =
  connected :: bool

record stats =
  bytes_received :: int
  messages_received :: int
  last_data_time :: "clock option"

text \<open>What the scripts print; the time stamps inside the printed lines are left out.\<close>

datatype out =
    PrDatabaseReady
  | PrConnected
  | PrConnectionFailed exn
  | PrLoggingError exn
  | PrMySQLLoggingError exn
  | PrReconnecting
  | PrReconnected
  | PrReconnectFailed exn
  | PrAlreadyActive
  | PrAntennaMustBe
  | PrAntennaSet int
  | PrStarted
  | PrUsingAntenna int
  | PrBytesWaiting nat
  | PrReceived pystr nat
  | PrBinary pystr nat
  | PrAntennaReceived int pystr nat
  | PrAntennaBinary int pystr nat
  | PrReadError exn
  | PrSingleByte byte
  | PrMonitorLoopError exn
  | PrStats int int "clock option"
  | PrCurrentAntenna "int option"
  | PrNotAvailable
  | PrSent pystr nat
  | PrSendError exn
  | PrNoConnection
  | PrTesting nat
  | PrAvailable "byte list"
  | PrReadTestError exn
  | PrStopping
  | PrStopped

text \<open>
  The logger object, with the part of the Python runtime that its methods act on:
  \<^item> \<open>serial_logs\<close> is the table of the store, which outlives a connection;
  \<^item> \<open>current_antenna\<close> is an attribute of \<^verbatim>\<open>AntennaSerialLogger\<close> only, and \<open>None\<close>
    while the attribute does not exist;
  \<^item> \<open>log_thread\<close> is the handle of the thread created most recently;
  \<^item> \<open>threads\<close> lists the polling threads that were started and have not returned from
    \<^verbatim>\<open>_monitor_loop\<close>, each with the loop's local variable \<^verbatim>\<open>last_activity_report\<close>
    (\<open>None\<close> before the thread has entered the function; \<^verbatim>\<open>script2.py\<close> has no such
    variable and leaves it \<open>None\<close>);
  \<^item> \<open>spawned\<close> counts the threads created so far and names the next one;
  \<^item> \<open>console\<close> is standard output.
\<close>

record logger =
  serial_conn :: "serial_port option"
  db_conn :: "db option"
  serial_logs :: "log_row list"
  running :: bool
  log_thread :: "nat option"
  stats :: stats
  current_antenna :: "int option"
  threads :: "(nat \<times> clock option) list"
  spawned :: nat
  console :: "out list"

text \<open>
  What the environment decides during one call: whether a library call raises, what
  the clock shows, and how the test \<^verbatim>\<open>time.time() - last_activity_report > 5\<close> of
  \<^verbatim>\<open>script.py\<close> comes out. The test subtracts two floating-point readings of the clock,
  which are not modelled: \<open>report_due e lar\<close> is its outcome for a thread whose
  \<^verbatim>\<open>last_activity_report\<close> is \<open>lar\<close>.
\<close>

record env =
  in_waiting_fault :: "exn option"
  readline_fault :: "exn option"
  insert_fault :: "exn option"
  peek_fault :: "exn option"
  reconnect_fault :: "exn option"
  now :: clock
  report_due :: "clock \<Rightarrow> bool"

definition print :: "out \<Rightarrow> logger \<Rightarrow> logger" where
  "print x s = s\<lparr>console := console s @ [x]\<rparr>"

definition is_alive :: "nat \<Rightarrow> logger \<Rightarrow> bool" where
  "is_alive tid s = (map_of (threads s) tid \<noteq> None)"

definition thread_exit :: "nat \<Rightarrow> logger \<Rightarrow> logger" where
  "thread_exit tid s = s\<lparr>threads := filter (\<lambda>p. fst p \<noteq> tid) (threads s)\<rparr>"

subsection \<open>The serial port\<close>

text \<open>
  \<^verbatim>\<open>readline()\<close> under the 0.1 s timeout: the bytes up to and including the first line
  feed, or everything that has arrived when there is none; the result and the rest.
\<close>

fun readline :: "byte list \<Rightarrow> byte list \<times> byte list" where
  "readline [] = ([], [])"
| "readline (b # bs) =
     (if b = 0x0A then ([b], bs)
      else (case readline bs of (l, r) \<Rightarrow> (b # l, r)))"

definition port_open :: "logger \<Rightarrow> bool" where
  "port_open s = (case serial_conn s of None \<Rightarrow> False | Some p \<Rightarrow> is_open p)"

definition in_waiting :: "logger \<Rightarrow> nat" where
  "in_waiting s = (case serial_conn s of None \<Rightarrow> 0 | Some p \<Rightarrow> length (rx_buffer p))"

definition set_rx :: "byte list \<Rightarrow> logger \<Rightarrow> logger" where
  "set_rx bs s = s\<lparr>serial_conn := map_option (\<lambda>p. p\<lparr>rx_buffer := bs\<rparr>) (serial_conn s)\<rparr>"

definition rx :: "logger \<Rightarrow> byte list" where
  "rx s = (case serial_conn s of None \<Rightarrow> [] | Some p \<Rightarrow> rx_buffer p)"

subsection \<open>The statistics\<close>

text \<open>
  The three assignments under \<^verbatim>\<open>if raw_data:\<close> are three statements, run one after the
  other by the polling thread; neither script takes a lock around them.
\<close>

datatype stats_stmt = AddBytes nat | IncMessages | SetLastTime clock

fun exec_stmt :: "stats \<Rightarrow> stats_stmt \<Rightarrow> stats" where
  "exec_stmt st (AddBytes n) = st\<lparr>bytes_received := bytes_received st + int n\<rparr>"
| "exec_stmt st IncMessages = st\<lparr>messages_received := messages_received st + 1\<rparr>"
| "exec_stmt st (SetLastTime t) = st\<lparr>last_data_time := Some t\<rparr>"

definition stats_block :: "byte list \<Rightarrow> clock \<Rightarrow> stats_stmt list" where
  "stats_block raw t = [AddBytes (length raw), IncMessages, SetLastTime t]"

definition update_stats :: "byte list \<Rightarrow> clock \<Rightarrow> logger \<Rightarrow> logger" where
  "update_stats raw t s = s\<lparr>stats := foldl exec_stmt (stats s) (stats_block raw t)\<rparr>"

text \<open>
  The values of \<^verbatim>\<open>self.stats\<close> that another thread can read while the polling thread
  runs the block: before it, between two of its statements, and after it.
\<close>

definition reader_views :: "byte list \<Rightarrow> clock \<Rightarrow> stats \<Rightarrow> stats list" where
  "reader_views raw t st =
     map (\<lambda>k. foldl exec_stmt st (take k (stats_block raw t))) [0 ..< 4]"


section \<open>\<^verbatim>\<open>script.py\<close>: class \<^verbatim>\<open>DebugSerialLogger\<close>\<close>

text \<open>
  \<^verbatim>\<open>__init__\<close> with \<^verbatim>\<open>setup_database\<close>; the table may hold rows of earlier runs.
\<close>

definition dsl_init :: "log_row list \<Rightarrow> logger" where
  "dsl_init old =
     \<lparr>serial_conn = None,
      db_conn = Some \<lparr>connected = True\<rparr>,
      serial_logs = old,
      running = False,
      log_thread = None,
      stats = \<lparr>bytes_received = 0, messages_received = 0, last_data_time = None\<rparr>,
      current_antenna = None,
      threads = [],
      spawned = 0,
      console = [PrDatabaseReady]\<rparr>"

definition connect :: "exn option \<Rightarrow> logger \<Rightarrow> bool \<times> logger" where
  "connect fault s =
     (case fault of
        Some x \<Rightarrow> (False, print (PrConnectionFailed x) s)
      | None \<Rightarrow>
          (True, print PrConnected
                   (s\<lparr>serial_conn := Some \<lparr>is_open = True, rx_buffer = [], tx_log = []\<rparr>\<rparr>)))"

text \<open>
  \<^verbatim>\<open>log_data\<close>: the insert raises when the connection is missing or closed, or when
  the environment says so; the method catches every exception and prints it.
\<close>

definition dsl_log_data ::
  "exn option \<Rightarrow> pystr \<Rightarrow> byte list \<Rightarrow> string \<Rightarrow> logger \<Rightarrow> logger" where
  "dsl_log_data fault d raw ty s =
     (case db_conn s of
        None \<Rightarrow> print (PrLoggingError AttributeError) s
      | Some c \<Rightarrow>
          if \<not> connected c then print (PrLoggingError DbError) s
          else (case fault of
                  Some x \<Rightarrow> print (PrLoggingError x) s
                | None \<Rightarrow>
                    s\<lparr>serial_logs := serial_logs s @
                        [\<lparr>data = d, data_type = ty, raw_bytes = bytes_repr raw,
                          byte_count = length raw, antenna = None\<rparr>]\<rparr>))"

definition dsl_start_monitoring :: "logger \<Rightarrow> logger" where
  "dsl_start_monitoring s =
     (if running s then print PrAlreadyActive s
      else print PrStarted
             (s\<lparr>running := True,
                log_thread := Some (spawned s),
                threads := threads s @ [(spawned s, None)],
                spawned := spawned s + 1\<rparr>))"

definition show_stats :: "logger \<Rightarrow> logger" where
  "show_stats s =
     print (PrStats (messages_received (stats s)) (bytes_received (stats s))
              (last_data_time (stats s))) s"

text \<open>The statements under \<^verbatim>\<open>if raw_data:\<close> of \<^verbatim>\<open>_monitor_loop\<close>.\<close>

definition dsl_received :: "env \<Rightarrow> byte list \<Rightarrow> logger \<Rightarrow> logger" where
  "dsl_received e raw s =
     (let s1 = update_stats raw (now e) s in
      case utf8_decode raw of
        Some text \<Rightarrow>
          dsl_log_data (insert_fault e) (strip text) raw ''auto_received''
            (print (PrReceived (strip text) (length raw)) s1)
      | None \<Rightarrow>
          dsl_log_data (insert_fault e) (hex raw) raw ''binary_received''
            (print (PrBinary (hex raw) (length raw)) s1))"

text \<open>"Method 2": the line read, with its handler \<^verbatim>\<open>except Exception as read_error\<close>.\<close>

definition dsl_read_line :: "env \<Rightarrow> logger \<Rightarrow> logger" where
  "dsl_read_line e s =
     (case readline_fault e of
        Some x \<Rightarrow> print (PrReadError x) s
      | None \<Rightarrow>
          (case readline (rx s) of
             (raw, rest) \<Rightarrow>
               if raw \<noteq> [] then dsl_received e raw (set_rx rest s) else set_rx rest s))"

text \<open>"Method 3": the single byte read, with its handler \<^verbatim>\<open>except: pass\<close>.\<close>

definition dsl_read_single :: "env \<Rightarrow> logger \<Rightarrow> logger" where
  "dsl_read_single e s =
     (case peek_fault e of
        Some x \<Rightarrow> s
      | None \<Rightarrow>
          (case rx s of
             [] \<Rightarrow> s
           | b # rest \<Rightarrow> print (PrSingleByte b) (set_rx rest s)))"

text \<open>
  The progress report: \<^verbatim>\<open>show_stats()\<close> and a new \<^verbatim>\<open>last_activity_report\<close> when the test
  on the clock holds.
\<close>

definition dsl_report :: "env \<Rightarrow> clock \<Rightarrow> logger \<Rightarrow> clock \<times> logger" where
  "dsl_report e lar s = (if report_due e lar then (now e, show_stats s) else (lar, s))"

text \<open>
  The body of the outer \<^verbatim>\<open>try\<close>, for a thread whose \<^verbatim>\<open>last_activity_report\<close> is
  \<open>lar\<close>: \<open>Inl\<close> is an exception that leaves the body, with the state it leaves behind.
\<close>

definition dsl_try_body ::
  "env \<Rightarrow> clock \<Rightarrow> logger \<Rightarrow> (exn \<times> logger) + (clock \<times> logger)" where
  "dsl_try_body e lar s =
     (if port_open s then
        (case in_waiting_fault e of
           Some x \<Rightarrow> Inl (x, s)
         | None \<Rightarrow>
             Inr (dsl_report e lar
                    (dsl_read_single e
                       (dsl_read_line e
                          (if in_waiting s > 0 then print (PrBytesWaiting (in_waiting s)) s
                           else s)))))
      else Inr (dsl_report e lar s))"

text \<open>One pass through the \<^verbatim>\<open>while\<close> body, with the handler of the outer \<^verbatim>\<open>try\<close>.\<close>

definition dsl_iteration :: "env \<Rightarrow> clock \<Rightarrow> logger \<Rightarrow> clock \<times> logger" where
  "dsl_iteration e lar s =
     (case dsl_try_body e lar s of
        Inl (x, s') \<Rightarrow> (lar, print (PrMonitorLoopError x) s')
      | Inr r \<Rightarrow> r)"

text \<open>
  One turn of polling thread \<open>tid\<close>: on its first turn it enters \<^verbatim>\<open>_monitor_loop\<close> and
  sets \<^verbatim>\<open>last_activity_report\<close>; it tests \<^verbatim>\<open>self.running\<close>, and either returns from the
  function (the thread ends) or runs the body once.
\<close>

definition dsl_poll :: "nat \<Rightarrow> env \<Rightarrow> logger \<Rightarrow> logger" where
  "dsl_poll tid e s =
     (case map_of (threads s) tid of
        None \<Rightarrow> s
      | Some loc \<Rightarrow>
          if \<not> running s then thread_exit tid s
          else
            (case dsl_iteration e (case loc of None \<Rightarrow> now e | Some t \<Rightarrow> t) s of
               (lar, s') \<Rightarrow>
                 s'\<lparr>threads := map (\<lambda>p. if fst p = tid then (tid, Some lar) else p)
                                   (threads s')\<rparr>))"

definition send_command ::
  "exn option \<Rightarrow> exn option \<Rightarrow> pystr \<Rightarrow> logger \<Rightarrow> bool option \<times> logger" where
  "send_command write_fault ins_fault command s =
     (case serial_conn s of
        None \<Rightarrow> (None, print PrNotAvailable s)
      | Some p \<Rightarrow>
          if \<not> is_open p then (None, print PrNotAvailable s)
          else
            (case utf8_encode (command @ [0x0A]) of
               None \<Rightarrow> (None, print (PrSendError UnicodeEncodeError) s)
             | Some cmd_bytes \<Rightarrow>
                 (case write_fault of
                    Some x \<Rightarrow> (None, print (PrSendError x) s)
                  | None \<Rightarrow>
                      (Some True,
                       dsl_log_data ins_fault command cmd_bytes ''command_sent''
                         (print (PrSent command (length cmd_bytes))
                            (s\<lparr>serial_conn :=
                                 Some (p\<lparr>tx_log := tx_log p @ cmd_bytes\<rparr>)\<rparr>))))))"

text \<open>
  \<^verbatim>\<open>test_connection\<close>: reading \<^verbatim>\<open>in_waiting\<close> for the printed line is outside the
  \<^verbatim>\<open>try\<close>, so that its exception leaves the method; the read inside the \<^verbatim>\<open>try\<close> takes
  every byte that is waiting.
\<close>

definition test_connection ::
  "exn option \<Rightarrow> exn option \<Rightarrow> logger \<Rightarrow> (exn \<times> logger) + (bool \<times> logger)" where
  "test_connection iw_fault read_fault s =
     (if \<not> port_open s then Inr (False, print PrNoConnection s)
      else
        (case iw_fault of
           Some x \<Rightarrow> Inl (x, s)
         | None \<Rightarrow>
             (let s1 = print (PrTesting (in_waiting s)) s in
              case read_fault of
                Some x \<Rightarrow> Inr (True, print (PrReadTestError x) s1)
              | None \<Rightarrow> Inr (True, print (PrAvailable (rx s1)) (set_rx [] s1)))))"

text \<open>
  \<^verbatim>\<open>log_thread.join(timeout)\<close>, guarded by \<^verbatim>\<open>is_alive()\<close>: the polling thread would need
  \<open>need\<close> milliseconds to reach its loop test and return. The call blocks for that long,
  or for the timeout when that is shorter, and then the thread is still alive. The result
  is the time the caller was blocked, and the state.
\<close>

definition close_port :: "logger \<Rightarrow> logger" where
  "close_port s = s\<lparr>serial_conn := map_option (\<lambda>p. p\<lparr>is_open := False\<rparr>) (serial_conn s)\<rparr>"

definition close_db :: "logger \<Rightarrow> logger" where
  "close_db s = s\<lparr>db_conn := map_option (\<lambda>c. c\<lparr>connected := False\<rparr>) (db_conn s)\<rparr>"

definition join :: "nat \<Rightarrow> nat \<Rightarrow> logger \<Rightarrow> nat \<times> logger" where
  "join timeout need s =
     (case log_thread s of
        None \<Rightarrow> (0, s)
      | Some tid \<Rightarrow>
          if is_alive tid s
          then (if need \<le> timeout then (need, thread_exit tid s) else (timeout, s))
          else (0, s))"

text \<open>\<^verbatim>\<open>stop\<close>, with \<^verbatim>\<open>join(timeout=2)\<close>: two seconds.\<close>

definition dsl_stop :: "nat \<Rightarrow> logger \<Rightarrow> nat \<times> logger" where
  "dsl_stop need s =
     (case join 2000 need ((print PrStopping s)\<lparr>running := False\<rparr>) of
        (waited, s1) \<Rightarrow>
          (waited, show_stats (print PrStopped (close_db (close_port s1)))))"


section \<open>\<^verbatim>\<open>script2.py\<close>: class \<^verbatim>\<open>AntennaSerialLogger\<close>\<close>

text \<open>
  \<^verbatim>\<open>__init__\<close> with \<^verbatim>\<open>setup_database\<close>, which ends the process (\<^verbatim>\<open>sys.exit(1)\<close>) when
  the driver raises its \<^verbatim>\<open>Error\<close>: \<open>None\<close>. The attribute \<^verbatim>\<open>current_antenna\<close> is not
  assigned here.
\<close>

definition asl_init :: "bool \<Rightarrow> log_row list \<Rightarrow> logger option" where
  "asl_init db_down old =
     (if db_down then None
      else Some
        \<lparr>serial_conn = None,
         db_conn = Some \<lparr>connected = True\<rparr>,
         serial_logs = old,
         running = False,
         log_thread = None,
         stats = \<lparr>bytes_received = 0, messages_received = 0, last_data_time = None\<rparr>,
         current_antenna = None,
         threads = [],
         spawned = 0,
         console = [PrDatabaseReady]\<rparr>)"

text \<open>
  \<^verbatim>\<open>reconnect_db\<close> handles the driver's \<^verbatim>\<open>Error\<close> only; any other exception leaves it.
\<close>

definition reconnect_db :: "exn option \<Rightarrow> logger \<Rightarrow> (exn \<times> logger) + (bool \<times> logger)" where
  "reconnect_db fault s =
     (let s1 = print PrReconnecting (close_db s) in
      case fault of
        Some x \<Rightarrow>
          if x = DbError then Inr (False, print (PrReconnectFailed x) s1) else Inl (x, s1)
      | None \<Rightarrow> Inr (True, print PrReconnected (s1\<lparr>db_conn := Some \<lparr>connected = True\<rparr>\<rparr>)))"

text \<open>
  \<^verbatim>\<open>log_data\<close>: nothing happens without a connected connection; the driver's \<^verbatim>\<open>Error\<close>
  leads to \<^verbatim>\<open>reconnect_db\<close>, whose own exception is raised inside a handler and so leaves
  the method.
\<close>

definition asl_log_data ::
  "env \<Rightarrow> pystr \<Rightarrow> byte list \<Rightarrow> int \<Rightarrow> string \<Rightarrow> logger \<Rightarrow> (exn \<times> logger) + logger" where
  "asl_log_data e d raw ant ty s =
     (case db_conn s of
        None \<Rightarrow> Inr s
      | Some c \<Rightarrow>
          if \<not> connected c then Inr s
          else (case insert_fault e of
                  None \<Rightarrow>
                    Inr (s\<lparr>serial_logs := serial_logs s @
                          [\<lparr>data = d, data_type = ty, raw_bytes = hex raw,
                            byte_count = length raw, antenna = Some ant\<rparr>]\<rparr>)
                | Some x \<Rightarrow>
                    if x = DbError then
                      (case reconnect_db (reconnect_fault e) (print (PrMySQLLoggingError x) s) of
                         Inl xs \<Rightarrow> Inl xs
                       | Inr (ok, s') \<Rightarrow> Inr s')
                    else Inr (print (PrLoggingError x) s)))"

definition set_antenna :: "int \<Rightarrow> logger \<Rightarrow> bool \<times> logger" where
  "set_antenna antenna_number s =
     (if antenna_number \<notin> set [1, 2] then (False, print PrAntennaMustBe s)
      else (True, print (PrAntennaSet antenna_number)
                    (s\<lparr>current_antenna := Some antenna_number\<rparr>)))"

definition asl_start_monitoring :: "int \<Rightarrow> logger \<Rightarrow> logger" where
  "asl_start_monitoring ant s =
     (if running s then print PrAlreadyActive s
      else if ant \<notin> set [1, 2] then print PrAntennaMustBe s
      else print (PrUsingAntenna ant)
             (print PrStarted
                (s\<lparr>current_antenna := Some ant,
                   running := True,
                   log_thread := Some (spawned s),
                   threads := threads s @ [(spawned s, None)],
                   spawned := spawned s + 1\<rparr>)))"

text \<open>
  The handler \<^verbatim>\<open>except UnicodeDecodeError\<close> of \<^verbatim>\<open>_monitor_loop\<close>; reading
  \<^verbatim>\<open>self.current_antenna\<close> raises \<^verbatim>\<open>AttributeError\<close> while the attribute does not exist.
\<close>

definition asl_binary :: "env \<Rightarrow> byte list \<Rightarrow> logger \<Rightarrow> (exn \<times> logger) + logger" where
  "asl_binary e raw s =
     (case current_antenna s of
        None \<Rightarrow> Inl (AttributeError, s)
      | Some a \<Rightarrow>
          asl_log_data e (hex raw) raw a ''binary_received''
            (print (PrAntennaBinary a (hex raw) (length raw)) s))"

text \<open>
  The statements under \<^verbatim>\<open>if raw_data:\<close>. The inner \<^verbatim>\<open>try\<close> covers the decoding, the
  printing and the call of \<^verbatim>\<open>log_data\<close>, so a \<^verbatim>\<open>UnicodeDecodeError\<close> from any of them
  reaches the binary handler.
\<close>

definition asl_received :: "env \<Rightarrow> byte list \<Rightarrow> logger \<Rightarrow> (exn \<times> logger) + logger" where
  "asl_received e raw s =
     (let s1 = update_stats raw (now e) s in
      case utf8_decode raw of
        None \<Rightarrow> asl_binary e raw s1
      | Some text \<Rightarrow>
          (case current_antenna s1 of
             None \<Rightarrow> Inl (AttributeError, s1)
           | Some a \<Rightarrow>
               (case asl_log_data e (strip text) raw a ''auto_received''
                       (print (PrAntennaReceived a (strip text) (length raw)) s1) of
                  Inl (x, s2) \<Rightarrow>
                    if x = UnicodeDecodeError then asl_binary e raw s2 else Inl (x, s2)
                | Inr s2 \<Rightarrow> Inr s2)))"

text \<open>The line read with its handler \<^verbatim>\<open>except Exception as read_error\<close>.\<close>

definition asl_read_line :: "env \<Rightarrow> logger \<Rightarrow> logger" where
  "asl_read_line e s =
     (case readline_fault e of
        Some x \<Rightarrow> print (PrReadError x) s
      | None \<Rightarrow>
          (case readline (rx s) of
             (raw, rest) \<Rightarrow>
               if raw \<noteq> [] then
                 (case asl_received e raw (set_rx rest s) of
                    Inl (x, s') \<Rightarrow> print (PrReadError x) s'
                  | Inr s' \<Rightarrow> s')
               else set_rx rest s))"

text \<open>
  One pass through the \<^verbatim>\<open>while\<close> body. Nothing that the body calls outside the inner
  \<^verbatim>\<open>try\<close> raises, so the outer handler has no case here.
\<close>

definition asl_iteration :: "env \<Rightarrow> logger \<Rightarrow> logger" where
  "asl_iteration e s = (if port_open s then asl_read_line e s else s)"

definition asl_poll :: "nat \<Rightarrow> env \<Rightarrow> logger \<Rightarrow> logger" where
  "asl_poll tid e s =
     (case map_of (threads s) tid of
        None \<Rightarrow> s
      | Some loc \<Rightarrow> if \<not> running s then thread_exit tid s else asl_iteration e s)"

definition asl_show_stats :: "logger \<Rightarrow> logger" where
  "asl_show_stats s = print (PrCurrentAntenna (current_antenna s)) (show_stats s)"

definition asl_stop :: "nat \<Rightarrow> logger \<Rightarrow> nat \<times> logger" where
  "asl_stop need s =
     (case join 2000 need ((print PrStopping s)\<lparr>running := False\<rparr>) of
        (waited, s1) \<Rightarrow>
          (waited, asl_show_stats (print PrStopped (close_db (close_port s1)))))"

text \<open>
  The command \<^verbatim>\<open>start\<close> of the interactive loop passes
  \<^verbatim>\<open>getattr(logger, "current_antenna", 1)\<close>; on Ctrl+C the loop assigns
  \<^verbatim>\<open>logger.running = False\<close> and goes on reading commands.
\<close>

definition cmd_start :: "logger \<Rightarrow> logger" where
  "cmd_start s =
     asl_start_monitoring (case current_antenna s of None \<Rightarrow> 1 | Some a \<Rightarrow> a) s"

definition ctrl_c :: "logger \<Rightarrow> logger" where
  "ctrl_c s = s\<lparr>running := False\<rparr>"

section \<open>Runs\<close>

text \<open>
  A run is a sequence of events: the device delivers bytes, a polling thread takes a
  turn, or the foreground task calls a method. Turns of the polling thread and calls of
  the foreground task alternate in any order.
\<close>

definition deliver :: "byte list \<Rightarrow> logger \<Rightarrow> logger" where
  "deliver bs s =
     s\<lparr>serial_conn :=
         map_option (\<lambda>p. if is_open p then p\<lparr>rx_buffer := rx_buffer p @ bs\<rparr> else p)
           (serial_conn s)\<rparr>"

datatype dsl_event =
    DRx "byte list"
  | DPoll nat env
  | DConnect "exn option"
  | DStart
  | DShowStats
  | DSend "exn option" "exn option" pystr
  | DTest "exn option" "exn option"
  | DStop nat

fun dsl_step :: "logger \<Rightarrow> dsl_event \<Rightarrow> logger" where
  "dsl_step s (DRx bs) = deliver bs s"
| "dsl_step s (DPoll tid e) = dsl_poll tid e s"
| "dsl_step s (DConnect f) = snd (connect f s)"
| "dsl_step s DStart = dsl_start_monitoring s"
| "dsl_step s DShowStats = show_stats s"
| "dsl_step s (DSend f g c) = snd (send_command f g c s)"
| "dsl_step s (DTest f g) =
     (case test_connection f g s of Inl (x, s') \<Rightarrow> s' | Inr (b, s') \<Rightarrow> s')"
| "dsl_step s (DStop need) = snd (dsl_stop need s)"

definition dsl_run :: "logger \<Rightarrow> dsl_event list \<Rightarrow> logger" where
  "dsl_run s evs = foldl dsl_step s evs"

datatype asl_event =
    ARx "byte list"
  | APoll nat env
  | AConnect "exn option"
  | ASetAntenna int
  | AStart int
  | ACmdStart
  | ACtrlC
  | AShowStats
  | AStop nat

fun asl_step :: "logger \<Rightarrow> asl_event \<Rightarrow> logger" where
  "asl_step s (ARx bs) = deliver bs s"
| "asl_step s (APoll tid e) = asl_poll tid e s"
| "asl_step s (AConnect f) = snd (connect f s)"
| "asl_step s (ASetAntenna n) = snd (set_antenna n s)"
| "asl_step s (AStart n) = asl_start_monitoring n s"
| "asl_step s ACmdStart = cmd_start s"
| "asl_step s ACtrlC = ctrl_c s"
| "asl_step s AShowStats = asl_show_stats s"
| "asl_step s (AStop need) = snd (asl_stop need s)"

definition asl_run :: "logger \<Rightarrow> asl_event list \<Rightarrow> logger" where
  "asl_run s evs = foldl asl_step s evs"


section \<open>Notions used by the properties\<close>

text \<open>
  An environment in which no library call raises, and in which the test for the progress
  report is the exact one on milliseconds.
\<close>

definition quiet :: "clock \<Rightarrow> env" where
  "quiet t =
     \<lparr>in_waiting_fault = None, readline_fault = None, insert_fault = None,
      peek_fault = None, reconnect_fault = None, now = t,
      report_due = (\<lambda>lar. t - lar > 5000)\<rparr>"

text \<open>
  An environment in which the store is down: the insert and the attempt to connect again
  both raise the driver's \<^verbatim>\<open>Error\<close>.
\<close>

definition db_down :: "clock \<Rightarrow> env" where
  "db_down t = (quiet t)\<lparr>insert_fault := Some DbError, reconnect_fault := Some DbError\<rparr>"

definition db_ready :: "logger \<Rightarrow> bool" where
  "db_ready s = (case db_conn s of None \<Rightarrow> False | Some c \<Rightarrow> connected c)"

text \<open>The state that a call leaves behind, whether or not an exception leaves it.\<close>

definition final :: "(exn \<times> logger) + logger \<Rightarrow> logger" where
  "final r = (case r of Inl (x, s) \<Rightarrow> s | Inr s \<Rightarrow> s)"

definition after_reconnect :: "exn option \<Rightarrow> logger \<Rightarrow> logger" where
  "after_reconnect f s = (case reconnect_db f s of Inl (x, s') \<Rightarrow> s' | Inr (ok, s') \<Rightarrow> s')"

text \<open>The rows that a later state has beyond those of an earlier one.\<close>

definition new_rows :: "logger \<Rightarrow> logger \<Rightarrow> log_row list" where
  "new_rows s s' = drop (length (serial_logs s)) (serial_logs s')"

text \<open>
  The specification's reading of the stored text: the decoded payload without its
  trailing line terminators (carriage return, line feed), and nothing else removed.
\<close>

definition line_terminator :: "nat \<Rightarrow> bool" where
  "line_terminator c = (c = 0x0A \<or> c = 0x0D)"

definition spec_strip_line_end :: "pystr \<Rightarrow> pystr" where
  "spec_strip_line_end s = rev (dropWhile line_terminator (rev s))"

text \<open>The printed lines that report an exception.\<close>

fun is_error_line :: "out \<Rightarrow> bool" where
  "is_error_line (PrLoggingError x) = True"
| "is_error_line (PrMySQLLoggingError x) = True"
| "is_error_line (PrReconnectFailed x) = True"
| "is_error_line (PrReadError x) = True"
| "is_error_line (PrMonitorLoopError x) = True"
| "is_error_line (PrSendError x) = True"
| "is_error_line (PrReadTestError x) = True"
| "is_error_line (PrConnectionFailed x) = True"
| "is_error_line y = False"

definition error_lines :: "logger \<Rightarrow> out list" where
  "error_lines s = filter is_error_line (console s)"

text \<open>
  The payload that a turn of polling thread \<open>tid\<close> reads: the result of
  \<^verbatim>\<open>readline()\<close> when the turn reaches the call and the call returns, and the empty
  payload otherwise.
\<close>

definition dsl_payload :: "nat \<Rightarrow> env \<Rightarrow> logger \<Rightarrow> byte list" where
  "dsl_payload tid e s =
     (if is_alive tid s \<and> running s \<and> port_open s \<and> in_waiting_fault e = None
         \<and> readline_fault e = None
      then fst (readline (rx s)) else [])"

definition asl_payload :: "nat \<Rightarrow> env \<Rightarrow> logger \<Rightarrow> byte list" where
  "asl_payload tid e s =
     (if is_alive tid s \<and> running s \<and> port_open s \<and> readline_fault e = None
      then fst (readline (rx s)) else [])"

text \<open>The payloads of at least one byte read during a run, in order.\<close>

fun dsl_reads :: "logger \<Rightarrow> dsl_event list \<Rightarrow> byte list list" where
  "dsl_reads s [] = []"
| "dsl_reads s (DPoll tid e # evs) =
     (if dsl_payload tid e s \<noteq> [] then [dsl_payload tid e s] else [])
     @ dsl_reads (dsl_step s (DPoll tid e)) evs"
| "dsl_reads s (ev # evs) = dsl_reads (dsl_step s ev) evs"

fun asl_reads :: "logger \<Rightarrow> asl_event list \<Rightarrow> byte list list" where
  "asl_reads s [] = []"
| "asl_reads s (APoll tid e # evs) =
     (if asl_payload tid e s \<noteq> [] then [asl_payload tid e s] else [])
     @ asl_reads (asl_step s (APoll tid e)) evs"
| "asl_reads s (ev # evs) = asl_reads (asl_step s ev) evs"

text \<open>The attributes of the logger object, without the runtime around it.\<close>

definition attrs ::
  "logger \<Rightarrow> serial_port option \<times> db option \<times> bool \<times> nat option \<times> stats \<times> int option" where
  "attrs s =
     (serial_conn s, db_conn s, running s, log_thread s, stats s, current_antenna s)"

text \<open>The antenna attribute, when it exists, is 1 or 2.\<close>

definition antenna_ok :: "logger \<Rightarrow> bool" where
  "antenna_ok s = (case current_antenna s of None \<Rightarrow> True | Some a \<Rightarrow> a = 1 \<or> a = 2)"

text \<open>The calls that take an antenna number from their caller.\<close>

fun assigns_antenna :: "asl_event \<Rightarrow> bool" where
  "assigns_antenna (ASetAntenna n) = True"
| "assigns_antenna (AStart n) = True"
| "assigns_antenna ev = False"

text \<open>Example states: a connected logger, and one that is monitoring.\<close>

definition dsl_connected :: logger where
  "dsl_connected = dsl_run (dsl_init []) [DConnect None]"

definition dsl_monitoring :: logger where
  "dsl_monitoring = dsl_run (dsl_init []) [DConnect None, DStart]"

definition asl_fresh :: logger where
  "asl_fresh = the (asl_init False [])"

definition asl_monitoring :: "int \<Rightarrow> logger" where
  "asl_monitoring a = asl_run asl_fresh [AConnect None, ASetAntenna a, ACmdStart]"

text \<open>
  Example payloads: \<^verbatim>\<open>b"hello\n"\<close>, \<^verbatim>\<open>b" hi \n"\<close>, \<^verbatim>\<open>b"\xff\xfe\x00\n"\<close>, \<^verbatim>\<open>b"\n"\<close>,
  \<^verbatim>\<open>b"ab\ncd"\<close>.
\<close>

definition hello :: "byte list" where
  "hello = [0x68, 0x65, 0x6C, 0x6C, 0x6F, 0x0A]"

definition padded :: "byte list" where
  "padded = [0x20, 0x68, 0x69, 0x20, 0x0A]"

definition binary :: "byte list" where
  "binary = [0xFF, 0xFE, 0x00, 0x0A]"

definition newline :: "byte list" where
  "newline = [0x0A]"

definition two_lines :: "byte list" where
  "two_lines = [0x61, 0x62, 0x0A, 0x63, 0x64]"

section \<open>What each step leaves unchanged\<close>

lemma print_frame [simp]:
  "serial_conn (print x s) = serial_conn s"
  "db_conn (print x s) = db_conn s"
  "serial_logs (print x s) = serial_logs s"
  "running (print x s) = running s"
  "log_thread (print x s) = log_thread s"
  "stats (print x s) = stats s"
  "current_antenna (print x s) = current_antenna s"
  "threads (print x s) = threads s"
  "spawned (print x s) = spawned s"
  "console (print x s) = console s @ [x]"
  by (simp_all add: print_def)

lemma print_derived [simp]:
  "port_open (print x s) = port_open s"
  "rx (print x s) = rx s"
  "in_waiting (print x s) = in_waiting s"
  "db_ready (print x s) = db_ready s"
  "is_alive tid (print x s) = is_alive tid s"
  "error_lines (print x s) = error_lines s @ (if is_error_line x then [x] else [])"
  by (simp_all add: port_open_def rx_def in_waiting_def db_ready_def is_alive_def error_lines_def)

lemma set_rx_frame [simp]:
  "db_conn (set_rx bs s) = db_conn s"
  "serial_logs (set_rx bs s) = serial_logs s"
  "running (set_rx bs s) = running s"
  "log_thread (set_rx bs s) = log_thread s"
  "stats (set_rx bs s) = stats s"
  "current_antenna (set_rx bs s) = current_antenna s"
  "threads (set_rx bs s) = threads s"
  "spawned (set_rx bs s) = spawned s"
  "console (set_rx bs s) = console s"
  by (simp_all add: set_rx_def)

lemma set_rx_derived [simp]:
  "port_open (set_rx bs s) = port_open s"
  "db_ready (set_rx bs s) = db_ready s"
  "is_alive tid (set_rx bs s) = is_alive tid s"
  "error_lines (set_rx bs s) = error_lines s"
  "port_open s \<Longrightarrow> rx (set_rx bs s) = bs"
  by (simp_all add: port_open_def db_ready_def is_alive_def error_lines_def set_rx_def rx_def
      split: option.splits)

lemma update_stats_frame [simp]:
  "serial_conn (update_stats raw t s) = serial_conn s"
  "db_conn (update_stats raw t s) = db_conn s"
  "serial_logs (update_stats raw t s) = serial_logs s"
  "running (update_stats raw t s) = running s"
  "log_thread (update_stats raw t s) = log_thread s"
  "current_antenna (update_stats raw t s) = current_antenna s"
  "threads (update_stats raw t s) = threads s"
  "spawned (update_stats raw t s) = spawned s"
  "console (update_stats raw t s) = console s"
  by (simp_all add: update_stats_def)

lemma update_stats_derived [simp]:
  "port_open (update_stats raw t s) = port_open s"
  "rx (update_stats raw t s) = rx s"
  "db_ready (update_stats raw t s) = db_ready s"
  "is_alive tid (update_stats raw t s) = is_alive tid s"
  "error_lines (update_stats raw t s) = error_lines s"
  by (simp_all add: port_open_def rx_def db_ready_def is_alive_def error_lines_def)

lemma update_stats_stats [simp]:
  "stats (update_stats raw t s) =
     \<lparr>bytes_received = bytes_received (stats s) + int (length raw),
      messages_received = messages_received (stats s) + 1,
      last_data_time = Some t\<rparr>"
  by (simp add: update_stats_def stats_block_def)

lemma show_stats_frame [simp]:
  "serial_conn (show_stats s) = serial_conn s"
  "db_conn (show_stats s) = db_conn s"
  "serial_logs (show_stats s) = serial_logs s"
  "running (show_stats s) = running s"
  "log_thread (show_stats s) = log_thread s"
  "stats (show_stats s) = stats s"
  "current_antenna (show_stats s) = current_antenna s"
  "threads (show_stats s) = threads s"
  "spawned (show_stats s) = spawned s"
  "port_open (show_stats s) = port_open s"
  "rx (show_stats s) = rx s"
  "db_ready (show_stats s) = db_ready s"
  "is_alive tid (show_stats s) = is_alive tid s"
  "error_lines (show_stats s) = error_lines s"
  by (simp_all add: show_stats_def)

subsection \<open>\<^verbatim>\<open>log_data\<close> of \<^verbatim>\<open>script.py\<close>\<close>

lemma dsl_log_data_frame [simp]:
  "serial_conn (dsl_log_data f d raw ty s) = serial_conn s"
  "db_conn (dsl_log_data f d raw ty s) = db_conn s"
  "running (dsl_log_data f d raw ty s) = running s"
  "log_thread (dsl_log_data f d raw ty s) = log_thread s"
  "stats (dsl_log_data f d raw ty s) = stats s"
  "current_antenna (dsl_log_data f d raw ty s) = current_antenna s"
  "threads (dsl_log_data f d raw ty s) = threads s"
  "spawned (dsl_log_data f d raw ty s) = spawned s"
  by (simp_all add: dsl_log_data_def split: option.splits)

lemma dsl_log_data_derived [simp]:
  "port_open (dsl_log_data f d raw ty s) = port_open s"
  "rx (dsl_log_data f d raw ty s) = rx s"
  "db_ready (dsl_log_data f d raw ty s) = db_ready s"
  "is_alive tid (dsl_log_data f d raw ty s) = is_alive tid s"
  by (simp_all add: port_open_def rx_def db_ready_def is_alive_def)

lemma dsl_log_data_rows:
  "serial_logs (dsl_log_data f d raw ty s) =
     (if db_ready s \<and> f = None
      then serial_logs s @
        [\<lparr>data = d, data_type = ty, raw_bytes = bytes_repr raw, byte_count = length raw,
          antenna = None\<rparr>]
      else serial_logs s)"
  by (simp add: dsl_log_data_def db_ready_def split: option.splits)

lemma dsl_log_data_errors:
  "error_lines (dsl_log_data f d raw ty s) =
     (if db_ready s \<and> f = None then error_lines s
      else error_lines s @ [PrLoggingError
             (if db_conn s = None then AttributeError else if \<not> db_ready s then DbError else the f)])"
  by (auto simp add: dsl_log_data_def db_ready_def error_lines_def print_def split: option.splits)


subsection \<open>The loop body of \<^verbatim>\<open>script.py\<close>\<close>

lemma dsl_read_single_frame [simp]:
  "db_conn (dsl_read_single e s) = db_conn s"
  "serial_logs (dsl_read_single e s) = serial_logs s"
  "running (dsl_read_single e s) = running s"
  "log_thread (dsl_read_single e s) = log_thread s"
  "stats (dsl_read_single e s) = stats s"
  "current_antenna (dsl_read_single e s) = current_antenna s"
  "threads (dsl_read_single e s) = threads s"
  "spawned (dsl_read_single e s) = spawned s"
  "port_open (dsl_read_single e s) = port_open s"
  "db_ready (dsl_read_single e s) = db_ready s"
  "is_alive tid (dsl_read_single e s) = is_alive tid s"
  "error_lines (dsl_read_single e s) = error_lines s"
  by (simp_all add: dsl_read_single_def split: option.splits list.splits)

lemma dsl_report_frame [simp]:
  "db_conn (snd (dsl_report e lar s)) = db_conn s"
  "serial_conn (snd (dsl_report e lar s)) = serial_conn s"
  "serial_logs (snd (dsl_report e lar s)) = serial_logs s"
  "running (snd (dsl_report e lar s)) = running s"
  "log_thread (snd (dsl_report e lar s)) = log_thread s"
  "stats (snd (dsl_report e lar s)) = stats s"
  "current_antenna (snd (dsl_report e lar s)) = current_antenna s"
  "threads (snd (dsl_report e lar s)) = threads s"
  "spawned (snd (dsl_report e lar s)) = spawned s"
  "port_open (snd (dsl_report e lar s)) = port_open s"
  "rx (snd (dsl_report e lar s)) = rx s"
  "db_ready (snd (dsl_report e lar s)) = db_ready s"
  "is_alive tid (snd (dsl_report e lar s)) = is_alive tid s"
  "error_lines (snd (dsl_report e lar s)) = error_lines s"
  by (simp_all add: dsl_report_def)

lemma dsl_received_frame [simp]:
  "serial_conn (dsl_received e raw s) = serial_conn s"
  "db_conn (dsl_received e raw s) = db_conn s"
  "running (dsl_received e raw s) = running s"
  "log_thread (dsl_received e raw s) = log_thread s"
  "current_antenna (dsl_received e raw s) = current_antenna s"
  "threads (dsl_received e raw s) = threads s"
  "spawned (dsl_received e raw s) = spawned s"
  "port_open (dsl_received e raw s) = port_open s"
  "rx (dsl_received e raw s) = rx s"
  "db_ready (dsl_received e raw s) = db_ready s"
  "is_alive tid (dsl_received e raw s) = is_alive tid s"
  by (simp_all add: dsl_received_def Let_def split: option.splits)

lemma dsl_received_stats [simp]:
  "stats (dsl_received e raw s) =
     \<lparr>bytes_received = bytes_received (stats s) + int (length raw),
      messages_received = messages_received (stats s) + 1,
      last_data_time = Some (now e)\<rparr>"
  by (simp add: dsl_received_def Let_def split: option.splits)

lemma dsl_received_rows:
  "serial_logs (dsl_received e raw s) =
     (if db_ready s \<and> insert_fault e = None
      then serial_logs s @
        [case utf8_decode raw of
           Some text \<Rightarrow>
             \<lparr>data = strip text, data_type = ''auto_received'', raw_bytes = bytes_repr raw,
              byte_count = length raw, antenna = None\<rparr>
         | None \<Rightarrow>
             \<lparr>data = hex raw, data_type = ''binary_received'', raw_bytes = bytes_repr raw,
              byte_count = length raw, antenna = None\<rparr>]
      else serial_logs s)"
  by (cases "utf8_decode raw") (simp_all add: dsl_received_def Let_def dsl_log_data_rows)

lemma dsl_received_errors:
  "db_ready s \<Longrightarrow> insert_fault e = None \<Longrightarrow>
   error_lines (dsl_received e raw s) = error_lines s"
  by (simp add: dsl_received_def Let_def dsl_log_data_errors split: option.splits)

lemma dsl_read_line_frame [simp]:
  "db_conn (dsl_read_line e s) = db_conn s"
  "running (dsl_read_line e s) = running s"
  "log_thread (dsl_read_line e s) = log_thread s"
  "current_antenna (dsl_read_line e s) = current_antenna s"
  "threads (dsl_read_line e s) = threads s"
  "spawned (dsl_read_line e s) = spawned s"
  "port_open (dsl_read_line e s) = port_open s"
  "db_ready (dsl_read_line e s) = db_ready s"
  "is_alive tid (dsl_read_line e s) = is_alive tid s"
  by (simp_all add: dsl_read_line_def split: option.splits prod.splits)

lemma dsl_read_line_rows:
  "serial_logs (dsl_read_line e s) =
     (if readline_fault e = None \<and> fst (readline (rx s)) \<noteq> []
      then serial_logs (dsl_received e (fst (readline (rx s))) s)
      else serial_logs s)"
  by (cases "readline (rx s)")
     (simp add: dsl_read_line_def dsl_received_rows split: option.splits)

lemma dsl_read_line_stats:
  "stats (dsl_read_line e s) =
     (if readline_fault e = None \<and> fst (readline (rx s)) \<noteq> []
      then stats (dsl_received e (fst (readline (rx s))) s)
      else stats s)"
  by (cases "readline (rx s)") (simp add: dsl_read_line_def split: option.splits)

lemma dsl_iteration_rows:
  "serial_logs (snd (dsl_iteration e lar s)) =
     (if port_open s \<and> in_waiting_fault e = None then serial_logs (dsl_read_line e s)
      else serial_logs s)"
  by (simp add: dsl_iteration_def dsl_try_body_def dsl_read_line_rows dsl_received_rows
      split: option.splits)

lemma dsl_iteration_stats:
  "stats (snd (dsl_iteration e lar s)) =
     (if port_open s \<and> in_waiting_fault e = None then stats (dsl_read_line e s)
      else stats s)"
  by (simp add: dsl_iteration_def dsl_try_body_def dsl_read_line_stats
      split: option.splits)

subsection \<open>The loop body of \<^verbatim>\<open>script2.py\<close>\<close>

lemma close_db_frame [simp]:
  "serial_conn (close_db s) = serial_conn s"
  "serial_logs (close_db s) = serial_logs s"
  "running (close_db s) = running s"
  "log_thread (close_db s) = log_thread s"
  "stats (close_db s) = stats s"
  "current_antenna (close_db s) = current_antenna s"
  "threads (close_db s) = threads s"
  "spawned (close_db s) = spawned s"
  "console (close_db s) = console s"
  "port_open (close_db s) = port_open s"
  "rx (close_db s) = rx s"
  "is_alive tid (close_db s) = is_alive tid s"
  "error_lines (close_db s) = error_lines s"
  "db_ready (close_db s) = False"
  by (simp_all add: close_db_def port_open_def rx_def is_alive_def error_lines_def db_ready_def
      split: option.splits)

lemma reconnect_db_frame [simp]:
  "serial_conn (after_reconnect f s) = serial_conn s"
  "serial_logs (after_reconnect f s) = serial_logs s"
  "running (after_reconnect f s) = running s"
  "log_thread (after_reconnect f s) = log_thread s"
  "stats (after_reconnect f s) = stats s"
  "current_antenna (after_reconnect f s) = current_antenna s"
  "threads (after_reconnect f s) = threads s"
  "spawned (after_reconnect f s) = spawned s"
  "db_ready (after_reconnect f s) = (f = None)"
  by (auto simp: reconnect_db_def after_reconnect_def Let_def db_ready_def close_db_def
      split: option.splits)

lemma final_simps [simp]:
  "final (Inl (x, s)) = s"
  "final (Inr s) = s"
  by (simp_all add: final_def)

lemma asl_log_data_final:
  "final (asl_log_data e d raw a ty s) =
     (if \<not> db_ready s then s
      else case insert_fault e of
        None \<Rightarrow> s\<lparr>serial_logs := serial_logs s @
                  [\<lparr>data = d, data_type = ty, raw_bytes = hex raw,
                    byte_count = length raw, antenna = Some a\<rparr>]\<rparr>
      | Some x \<Rightarrow>
          if x = DbError
          then after_reconnect (reconnect_fault e) (print (PrMySQLLoggingError x) s)
          else print (PrLoggingError x) s)"
  by (auto simp: asl_log_data_def db_ready_def final_def after_reconnect_def
      split: option.splits sum.splits)

lemma asl_log_data_frame [simp]:
  "serial_conn (final (asl_log_data e d raw a ty s)) = serial_conn s"
  "running (final (asl_log_data e d raw a ty s)) = running s"
  "log_thread (final (asl_log_data e d raw a ty s)) = log_thread s"
  "stats (final (asl_log_data e d raw a ty s)) = stats s"
  "current_antenna (final (asl_log_data e d raw a ty s)) = current_antenna s"
  "threads (final (asl_log_data e d raw a ty s)) = threads s"
  "spawned (final (asl_log_data e d raw a ty s)) = spawned s"
  by (simp_all add: asl_log_data_final split: option.splits)

lemma asl_log_data_rows:
  "serial_logs (final (asl_log_data e d raw a ty s)) =
     (if db_ready s \<and> insert_fault e = None
      then serial_logs s @
        [\<lparr>data = d, data_type = ty, raw_bytes = hex raw, byte_count = length raw,
          antenna = Some a\<rparr>]
      else serial_logs s)"
  by (simp add: asl_log_data_final split: option.splits)

lemma asl_log_data_ok:
  "db_ready s \<Longrightarrow> insert_fault e = None \<Longrightarrow>
   asl_log_data e d raw a ty s =
     Inr (s\<lparr>serial_logs := serial_logs s @
            [\<lparr>data = d, data_type = ty, raw_bytes = hex raw, byte_count = length raw,
              antenna = Some a\<rparr>]\<rparr>)"
  by (auto simp: asl_log_data_def db_ready_def split: option.splits)

lemma asl_log_data_closed:
  "\<not> db_ready s \<Longrightarrow> asl_log_data e d raw a ty s = Inr s"
  by (auto simp: asl_log_data_def db_ready_def split: option.splits)

lemma asl_log_data_raises:
  "asl_log_data e d raw a ty s = Inl (x, s') \<Longrightarrow> \<not> db_ready s'"
  by (auto simp: asl_log_data_def db_ready_def reconnect_db_def Let_def close_db_def
      split: option.splits sum.splits if_splits)

lemma asl_binary_frame [simp]:
  "serial_conn (final (asl_binary e raw s)) = serial_conn s"
  "running (final (asl_binary e raw s)) = running s"
  "log_thread (final (asl_binary e raw s)) = log_thread s"
  "stats (final (asl_binary e raw s)) = stats s"
  "current_antenna (final (asl_binary e raw s)) = current_antenna s"
  "threads (final (asl_binary e raw s)) = threads s"
  "spawned (final (asl_binary e raw s)) = spawned s"
  by (simp_all add: asl_binary_def split: option.splits)

lemma asl_binary_rows:
  "serial_logs (final (asl_binary e raw s)) =
     (case current_antenna s of
        None \<Rightarrow> serial_logs s
      | Some a \<Rightarrow>
          if db_ready s \<and> insert_fault e = None
          then serial_logs s @
            [\<lparr>data = hex raw, data_type = ''binary_received'', raw_bytes = hex raw,
              byte_count = length raw, antenna = Some a\<rparr>]
          else serial_logs s)"
  by (cases "current_antenna s") (simp_all add: asl_binary_def asl_log_data_rows)

lemma asl_received_final:
  "final (asl_received e raw s) =
     (case utf8_decode raw of
        None \<Rightarrow> final (asl_binary e raw (update_stats raw (now e) s))
      | Some text \<Rightarrow>
          (case current_antenna s of
             None \<Rightarrow> update_stats raw (now e) s
           | Some a \<Rightarrow>
               if (\<exists>s2. asl_log_data e (strip text) raw a ''auto_received''
                          (print (PrAntennaReceived a (strip text) (length raw))
                             (update_stats raw (now e) s)) = Inl (UnicodeDecodeError, s2))
               then final (asl_binary e raw
                      (final (asl_log_data e (strip text) raw a ''auto_received''
                          (print (PrAntennaReceived a (strip text) (length raw))
                             (update_stats raw (now e) s)))))
               else final (asl_log_data e (strip text) raw a ''auto_received''
                          (print (PrAntennaReceived a (strip text) (length raw))
                             (update_stats raw (now e) s)))))"
  by (auto simp: asl_received_def Let_def split: option.splits sum.splits)

lemma asl_received_frame [simp]:
  "serial_conn (final (asl_received e raw s)) = serial_conn s"
  "running (final (asl_received e raw s)) = running s"
  "log_thread (final (asl_received e raw s)) = log_thread s"
  "current_antenna (final (asl_received e raw s)) = current_antenna s"
  "threads (final (asl_received e raw s)) = threads s"
  "spawned (final (asl_received e raw s)) = spawned s"
  "stats (final (asl_received e raw s)) =
     \<lparr>bytes_received = bytes_received (stats s) + int (length raw),
      messages_received = messages_received (stats s) + 1,
      last_data_time = Some (now e)\<rparr>"
  by (simp_all add: asl_received_final split: option.splits)


lemma asl_received_rows:
  "serial_logs (final (asl_received e raw s)) =
     (case current_antenna s of
        None \<Rightarrow> serial_logs s
      | Some a \<Rightarrow>
          if db_ready s \<and> insert_fault e = None
          then serial_logs s @
            [case utf8_decode raw of
               Some text \<Rightarrow>
                 \<lparr>data = strip text, data_type = ''auto_received'', raw_bytes = hex raw,
                  byte_count = length raw, antenna = Some a\<rparr>
             | None \<Rightarrow>
                 \<lparr>data = hex raw, data_type = ''binary_received'', raw_bytes = hex raw,
                  byte_count = length raw, antenna = Some a\<rparr>]
          else serial_logs s)"
proof (cases "utf8_decode raw")
  case None
  then show ?thesis
    by (auto simp: asl_received_final asl_binary_rows split: option.splits)
next
  case (Some decoded)
  show ?thesis
  proof (cases "current_antenna s")
    case None
    with Some show ?thesis by (simp add: asl_received_final)
  next
    case (Some a)
    let ?s1 = "print (PrAntennaReceived a (strip decoded) (length raw))
                 (update_stats raw (now e) s)"
    let ?r = "asl_log_data e (strip decoded) raw a ''auto_received'' ?s1"
    show ?thesis
    proof (cases "\<exists>s2. ?r = Inl (UnicodeDecodeError, s2)")
      case True
      then obtain s2 where r: "?r = Inl (UnicodeDecodeError, s2)" by blast
      then have closed: "\<not> db_ready s2" by (rule asl_log_data_raises)
      have fault: "\<not> (db_ready s \<and> insert_fault e = None)"
        using r asl_log_data_ok [of ?s1 e "strip decoded" raw a "''auto_received''"] by auto
      have "serial_logs (final (asl_binary e raw s2)) = serial_logs s2"
        using closed by (simp add: asl_binary_rows split: option.splits)
      moreover have "serial_logs s2 = serial_logs s"
        using asl_log_data_rows [of e "strip decoded" raw a "''auto_received''" ?s1] r fault
        by simp
      ultimately show ?thesis
        using True r fault \<open>utf8_decode raw = Some decoded\<close> Some
        by (simp add: asl_received_final)
    next
      case False
      then show ?thesis
        using \<open>utf8_decode raw = Some decoded\<close> Some
        by (simp add: asl_received_final asl_log_data_rows)
    qed
  qed
qed

lemma asl_received_ok:
  assumes "db_ready s" "insert_fault e = None" "current_antenna s = Some a"
  shows "asl_received e raw s =
     Inr ((print (case utf8_decode raw of
                    Some text \<Rightarrow> PrAntennaReceived a (strip text) (length raw)
                  | None \<Rightarrow> PrAntennaBinary a (hex raw) (length raw))
             (update_stats raw (now e) s))
          \<lparr>serial_logs := serial_logs s @
             [case utf8_decode raw of
                Some text \<Rightarrow>
                  \<lparr>data = strip text, data_type = ''auto_received'', raw_bytes = hex raw,
                   byte_count = length raw, antenna = Some a\<rparr>
              | None \<Rightarrow>
                  \<lparr>data = hex raw, data_type = ''binary_received'', raw_bytes = hex raw,
                   byte_count = length raw, antenna = Some a\<rparr>]\<rparr>)"
  using assms
  by (cases "utf8_decode raw")
     (simp_all add: asl_received_def asl_binary_def Let_def asl_log_data_ok)

lemma asl_read_line_final:
  assumes "readline_fault e = None" "readline (rx s) = (raw, rest)" "raw \<noteq> []"
  shows "\<exists>c. asl_read_line e s =
           (final (asl_received e raw (set_rx rest s)))
             \<lparr>console := console (final (asl_received e raw (set_rx rest s))) @ c\<rparr>"
proof (cases "asl_received e raw (set_rx rest s)")
  case (Inl p)
  obtain x s' where p: "p = (x, s')" by (cases p)
  have "asl_read_line e s = s'\<lparr>console := console s' @ [PrReadError x]\<rparr>"
    using assms Inl p by (simp add: asl_read_line_def print_def)
  then show ?thesis using Inl p by auto
next
  case (Inr s')
  have "asl_read_line e s = s'\<lparr>console := console s' @ []\<rparr>"
    using assms Inr by (simp add: asl_read_line_def)
  then show ?thesis using Inr by (metis final_simps(2))
qed

lemma asl_read_line_idle:
  "readline_fault e = None \<Longrightarrow> readline (rx s) = ([], rest) \<Longrightarrow>
   asl_read_line e s = set_rx rest s"
  by (simp add: asl_read_line_def)

lemma asl_read_line_fault:
  "readline_fault e = Some x \<Longrightarrow> asl_read_line e s = print (PrReadError x) s"
  by (simp add: asl_read_line_def)

lemma asl_read_line_cases:
  obtains (fault) x where "readline_fault e = Some x"
      and "asl_read_line e s = print (PrReadError x) s"
  | (idle) rest where "readline_fault e = None" and "readline (rx s) = ([], rest)"
      and "asl_read_line e s = set_rx rest s"
  | (payload) raw rest c where "readline_fault e = None" and "readline (rx s) = (raw, rest)"
      and "raw \<noteq> []"
      and "asl_read_line e s =
             (final (asl_received e raw (set_rx rest s)))
               \<lparr>console := console (final (asl_received e raw (set_rx rest s))) @ c\<rparr>"
proof -
  obtain raw rest where rl: "readline (rx s) = (raw, rest)" by (cases "readline (rx s)")
  show thesis
  proof (cases "readline_fault e")
    case (Some x)
    then show thesis using fault asl_read_line_fault by blast
  next
    case None
    show thesis
    proof (cases "raw = []")
      case True
      with None rl show thesis using idle asl_read_line_idle by blast
    next
      case False
      with asl_read_line_final [OF None rl] obtain c where
        "asl_read_line e s =
           (final (asl_received e raw (set_rx rest s)))
             \<lparr>console := console (final (asl_received e raw (set_rx rest s))) @ c\<rparr>"
        by blast
      with None rl False show thesis using payload by blast
    qed
  qed
qed

lemma asl_read_line_frame0:
  "running (asl_read_line e s) = running s
   \<and> log_thread (asl_read_line e s) = log_thread s
   \<and> current_antenna (asl_read_line e s) = current_antenna s
   \<and> threads (asl_read_line e s) = threads s
   \<and> spawned (asl_read_line e s) = spawned s
   \<and> port_open (asl_read_line e s) = port_open s
   \<and> is_alive tid (asl_read_line e s) = is_alive tid s"
  by (rule asl_read_line_cases [of e s])
     (simp_all add: port_open_def is_alive_def set_rx_def split: option.splits)

lemma asl_read_line_frame [simp]:
  "running (asl_read_line e s) = running s"
  "log_thread (asl_read_line e s) = log_thread s"
  "current_antenna (asl_read_line e s) = current_antenna s"
  "threads (asl_read_line e s) = threads s"
  "spawned (asl_read_line e s) = spawned s"
  "port_open (asl_read_line e s) = port_open s"
  "is_alive tid (asl_read_line e s) = is_alive tid s"
  using asl_read_line_frame0 [of e s tid] by simp_all

lemma asl_read_line_rows:
  "serial_logs (asl_read_line e s) =
     (if readline_fault e = None \<and> fst (readline (rx s)) \<noteq> []
      then serial_logs (final (asl_received e (fst (readline (rx s))) s))
      else serial_logs s)"
  by (rule asl_read_line_cases [of e s])
     (auto simp: asl_received_rows db_ready_def split: option.splits)

lemma asl_read_line_stats:
  "stats (asl_read_line e s) =
     (if readline_fault e = None \<and> fst (readline (rx s)) \<noteq> []
      then stats (final (asl_received e (fst (readline (rx s))) s))
      else stats s)"
  by (rule asl_read_line_cases [of e s]) simp_all

lemma asl_read_line_ok:
  assumes "readline_fault e = None" "readline (rx s) = (raw, rest)" "raw \<noteq> []"
    and "db_ready s" "insert_fault e = None" "current_antenna s = Some a"
  shows "asl_read_line e s = final (asl_received e raw (set_rx rest s))"
  using assms asl_received_ok [of "set_rx rest s" e a raw]
  by (simp add: asl_read_line_def)

subsection \<open>The row that a pass stores\<close>

lemma dsl_stores:
  assumes "in_waiting_fault e = None" "readline_fault e = None" "insert_fault e = None"
    and "port_open s" "db_ready s" "readline (rx s) = (P, rest)" "P \<noteq> []"
  shows "serial_logs (snd (dsl_iteration e lar s)) = serial_logs s @
     [case utf8_decode P of
        Some text \<Rightarrow>
          \<lparr>data = strip text, data_type = ''auto_received'', raw_bytes = bytes_repr P,
           byte_count = length P, antenna = None\<rparr>
      | None \<Rightarrow>
          \<lparr>data = hex P, data_type = ''binary_received'', raw_bytes = bytes_repr P,
           byte_count = length P, antenna = None\<rparr>]"
  using assms by (simp add: dsl_iteration_rows dsl_read_line_rows dsl_received_rows)

lemma asl_stores:
  assumes "readline_fault e = None" "insert_fault e = None"
    and "port_open s" "db_ready s" "readline (rx s) = (P, rest)" "P \<noteq> []"
    and "current_antenna s = Some a"
  shows "serial_logs (asl_iteration e s) = serial_logs s @
     [case utf8_decode P of
        Some text \<Rightarrow>
          \<lparr>data = strip text, data_type = ''auto_received'', raw_bytes = hex P,
           byte_count = length P, antenna = Some a\<rparr>
      | None \<Rightarrow>
          \<lparr>data = hex P, data_type = ''binary_received'', raw_bytes = hex P,
           byte_count = length P, antenna = Some a\<rparr>]"
  using assms by (simp add: asl_iteration_def asl_read_line_rows asl_received_rows)


section \<open>The example states\<close>

lemma dsl_monitoring_eq:
  "dsl_monitoring =
     \<lparr>serial_conn = Some \<lparr>is_open = True, rx_buffer = [], tx_log = []\<rparr>,
      db_conn = Some \<lparr>connected = True\<rparr>,
      serial_logs = [],
      running = True,
      log_thread = Some 0,
      stats = \<lparr>bytes_received = 0, messages_received = 0, last_data_time = None\<rparr>,
      current_antenna = None,
      threads = [(0, None)],
      spawned = 1,
      console = [PrDatabaseReady, PrConnected, PrStarted]\<rparr>"
  by (simp add: dsl_monitoring_def dsl_run_def dsl_init_def connect_def
      dsl_start_monitoring_def print_def)

lemma asl_monitoring_eq:
  "a = 1 \<or> a = 2 \<Longrightarrow>
   asl_monitoring a =
     \<lparr>serial_conn = Some \<lparr>is_open = True, rx_buffer = [], tx_log = []\<rparr>,
      db_conn = Some \<lparr>connected = True\<rparr>,
      serial_logs = [],
      running = True,
      log_thread = Some 0,
      stats = \<lparr>bytes_received = 0, messages_received = 0, last_data_time = None\<rparr>,
      current_antenna = Some a,
      threads = [(0, None)],
      spawned = 1,
      console = [PrDatabaseReady, PrConnected, PrAntennaSet a, PrStarted, PrUsingAntenna a]\<rparr>"
  by (auto simp: asl_monitoring_def asl_fresh_def asl_run_def asl_init_def connect_def
      set_antenna_def cmd_start_def asl_start_monitoring_def print_def)

lemma dsl_example [simp]:
  "port_open (deliver bs dsl_monitoring)"
  "db_ready (deliver bs dsl_monitoring)"
  "rx (deliver bs dsl_monitoring) = bs"
  "serial_logs (deliver bs dsl_monitoring) = []"
  "stats (deliver bs dsl_monitoring) =
     \<lparr>bytes_received = 0, messages_received = 0, last_data_time = None\<rparr>"
  "running (deliver bs dsl_monitoring)"
  "threads (deliver bs dsl_monitoring) = [(0, None)]"
  "error_lines (deliver bs dsl_monitoring) = []"
  by (simp_all add: dsl_monitoring_eq deliver_def port_open_def db_ready_def rx_def
      error_lines_def)

lemma asl_example [simp]:
  "port_open (deliver bs (asl_monitoring 2))"
  "db_ready (deliver bs (asl_monitoring 2))"
  "rx (deliver bs (asl_monitoring 2)) = bs"
  "serial_logs (deliver bs (asl_monitoring 2)) = []"
  "stats (deliver bs (asl_monitoring 2)) =
     \<lparr>bytes_received = 0, messages_received = 0, last_data_time = None\<rparr>"
  "running (deliver bs (asl_monitoring 2))"
  "threads (deliver bs (asl_monitoring 2)) = [(0, None)]"
  "current_antenna (deliver bs (asl_monitoring 2)) = Some 2"
  "error_lines (deliver bs (asl_monitoring 2)) = []"
  by (simp_all add: asl_monitoring_eq deliver_def port_open_def db_ready_def rx_def
      error_lines_def)

lemma quiet_simps [simp]:
  "in_waiting_fault (quiet t) = None"
  "readline_fault (quiet t) = None"
  "insert_fault (quiet t) = None"
  "peek_fault (quiet t) = None"
  "reconnect_fault (quiet t) = None"
  "now (quiet t) = t"
  by (simp_all add: quiet_def)

lemma payload_examples [simp]:
  "readline hello = (hello, [])"
  "hello \<noteq> []"
  "length hello = 6"
  "utf8_decode hello = Some (str ''hello'' @ [10])"
  "strip (str ''hello'' @ [10]) = str ''hello''"
  "readline padded = (padded, [])"
  "padded \<noteq> []"
  "utf8_decode padded = Some (str '' hi '' @ [10])"
  "strip (str '' hi '' @ [10]) = str ''hi''"
  "spec_strip_line_end (str '' hi '' @ [10]) = str '' hi ''"
  "readline binary = (binary, [])"
  "binary \<noteq> []"
  "length binary = 4"
  "utf8_decode binary = None"
  "hex binary = str ''fffe000a''"
  by (simp_all add: hello_def padded_def binary_def str_def strip_def rstrip_def isspace_def
      spec_strip_line_end_def line_terminator_def hex_def hex_digit_def)

subsection \<open>Evaluating runs\<close>

lemmas run_defs =
  dsl_poll_def dsl_iteration_def dsl_try_body_def dsl_report_def dsl_read_single_def
  dsl_read_line_def dsl_received_def dsl_log_data_def
  asl_poll_def asl_iteration_def asl_read_line_def asl_received_def asl_binary_def
  asl_log_data_def reconnect_db_def
  update_stats_def stats_block_def print_def show_stats_def set_rx_def rx_def in_waiting_def
  port_open_def db_ready_def is_alive_def close_db_def close_port_def thread_exit_def
  deliver_def quiet_def db_down_def

section \<open>Received payloads and their rows\<close>

text \<open>
  Claim C1, as the code has it. Let the line read of one pass through the loop body
  return a payload \<open>P\<close> of at least one byte that is valid UTF-8, with the port open, no
  fault of the port, and a connected store that accepts the insert. Then the pass appends
  exactly one row to the table: its \<open>data_type\<close> is \<^verbatim>\<open>auto_received\<close>, its \<open>byte_count\<close> is the
  number of bytes of \<open>P\<close>, and its \<open>data\<close> is the decoded payload after Python's
  \<^verbatim>\<open>str.strip()\<close>, which removes all leading and all trailing white space, not only the
  trailing line terminators. In \<^verbatim>\<open>script2.py\<close> the row also carries the current antenna.
\<close>

theorem text_payload_record:
  assumes "in_waiting_fault e = None" and "readline_fault e = None"
    and "insert_fault e = None"
    and "P \<noteq> []" and "utf8_decode P = Some decoded"
    and "port_open s" and "db_ready s" and "readline (rx s) = (P, rest)"
    and "port_open t" and "db_ready t" and "readline (rx t) = (P, rest')"
    and "current_antenna t = Some a"
  shows "serial_logs (snd (dsl_iteration e lar s)) = serial_logs s @
           [\<lparr>data = strip decoded, data_type = ''auto_received'', raw_bytes = bytes_repr P,
             byte_count = length P, antenna = None\<rparr>]
       \<and> serial_logs (asl_iteration e t) = serial_logs t @
           [\<lparr>data = strip decoded, data_type = ''auto_received'', raw_bytes = hex P,
             byte_count = length P, antenna = Some a\<rparr>]"
proof
  show "serial_logs (snd (dsl_iteration e lar s)) = serial_logs s @
           [\<lparr>data = strip decoded, data_type = ''auto_received'', raw_bytes = bytes_repr P,
             byte_count = length P, antenna = None\<rparr>]"
    using assms dsl_stores [of e s P rest lar] by simp
  show "serial_logs (asl_iteration e t) = serial_logs t @
           [\<lparr>data = strip decoded, data_type = ''auto_received'', raw_bytes = hex P,
             byte_count = length P, antenna = Some a\<rparr>]"
    using assms asl_stores [of e t P rest' a] by simp
qed

text \<open>The payload \<^verbatim>\<open>b"hello\n"\<close>: one row with the text \<^verbatim>\<open>hello\<close> and a byte count of 6.\<close>

theorem text_payload_record_witness:
  "serial_logs (snd (dsl_iteration (quiet 0) 0 (deliver hello dsl_monitoring))) =
     [\<lparr>data = str ''hello'', data_type = ''auto_received'', raw_bytes = bytes_repr hello,
       byte_count = 6, antenna = None\<rparr>]
   \<and> serial_logs (asl_iteration (quiet 0) (deliver hello (asl_monitoring 2))) =
     [\<lparr>data = str ''hello'', data_type = ''auto_received'', raw_bytes = hex hello,
       byte_count = 6, antenna = Some 2\<rparr>]"
  using text_payload_record [of "quiet 0" hello "str ''hello'' @ [10]"
      "deliver hello dsl_monitoring" "[]" "deliver hello (asl_monitoring 2)" "[]" 2 0]
  by simp

text \<open>
  The payload \<^verbatim>\<open>b" hi \n"\<close>: both scripts store \<^verbatim>\<open>hi\<close>, while the decoded payload without
  its trailing line terminator is \<^verbatim>\<open>" hi "\<close>.
\<close>

theorem text_payload_strip_counterexample:
  "utf8_decode padded = Some (str '' hi '' @ [10])
   \<and> map data (serial_logs (snd (dsl_iteration (quiet 0) 0 (deliver padded dsl_monitoring))))
       = [str ''hi'']
   \<and> map data (serial_logs (asl_iteration (quiet 0) (deliver padded (asl_monitoring 2))))
       = [str ''hi'']
   \<and> spec_strip_line_end (str '' hi '' @ [10]) = str '' hi ''
   \<and> str ''hi'' \<noteq> str '' hi ''"
proof -
  have "str ''hi'' \<noteq> str '' hi ''"
    by (simp add: str_def)
  then show ?thesis
    using dsl_stores [of "quiet 0" "deliver padded dsl_monitoring" padded "[]" 0]
      asl_stores [of "quiet 0" "deliver padded (asl_monitoring 2)" padded "[]" 2]
    by simp
qed


subsection \<open>Payloads that are not UTF-8\<close>

lemma dsl_iteration_errors:
  assumes "in_waiting_fault e = None" "readline_fault e = None" "insert_fault e = None"
    and "db_ready s"
  shows "error_lines (snd (dsl_iteration e lar s)) = error_lines s"
proof -
  obtain raw rest where rl: "readline (rx s) = (raw, rest)" by (cases "readline (rx s)")
  have "error_lines (dsl_read_line e s') = error_lines s'" if "db_ready s'" for s'
    using that assms
    by (cases "readline (rx s')") (simp add: dsl_read_line_def dsl_received_errors)
  then show ?thesis
    using assms by (simp add: dsl_iteration_def dsl_try_body_def)
qed

lemma asl_iteration_ok:
  assumes "readline_fault e = None" "insert_fault e = None"
    and "port_open s" "db_ready s" "readline (rx s) = (P, rest)" "P \<noteq> []"
    and "current_antenna s = Some a"
  shows "asl_iteration e s = final (asl_received e P (set_rx rest s))"
  using assms by (simp add: asl_iteration_def asl_read_line_ok)

lemma asl_iteration_errors:
  assumes "readline_fault e = None" "insert_fault e = None"
    and "db_ready s" "current_antenna s = Some a"
  shows "error_lines (asl_iteration e s) = error_lines s"
proof (cases "port_open s")
  case False
  then show ?thesis by (simp add: asl_iteration_def)
next
  case True
  obtain raw rest where rl: "readline (rx s) = (raw, rest)" by (cases "readline (rx s)")
  show ?thesis
  proof (cases "raw = []")
    case True
    with rl assms \<open>port_open s\<close> show ?thesis
      by (simp add: asl_iteration_def asl_read_line_idle)
  next
    case False
    with rl assms \<open>port_open s\<close> show ?thesis
      using asl_received_ok [of "set_rx rest s" e a raw]
      by (simp add: asl_iteration_ok error_lines_def print_def split: option.splits)
  qed
qed

text \<open>
  Claim C2, as the code has it. Let the line read of one pass through the loop body return
  a payload \<open>P\<close> of at least one byte that is not valid UTF-8, with the port open and no
  fault of the port. Provided that the store is connected and accepts the insert, the
  pass appends exactly one row to the table: its \<open>data_type\<close> is \<^verbatim>\<open>binary_received\<close>, its
  \<open>data\<close> the hexadecimal encoding of \<open>P\<close>, its \<open>byte_count\<close> the number of bytes of \<open>P\<close>;
  and the pass prints no line that reports an exception. The claim has no such proviso:
  see the counterexample.
\<close>

theorem binary_payload_record:
  assumes "in_waiting_fault e = None" and "readline_fault e = None"
    and "insert_fault e = None"
    and "P \<noteq> []" and "utf8_decode P = None"
    and "port_open s" and "db_ready s" and "readline (rx s) = (P, rest)"
    and "port_open t" and "db_ready t" and "readline (rx t) = (P, rest')"
    and "current_antenna t = Some a"
  shows "serial_logs (snd (dsl_iteration e lar s)) = serial_logs s @
           [\<lparr>data = hex P, data_type = ''binary_received'', raw_bytes = bytes_repr P,
             byte_count = length P, antenna = None\<rparr>]
       \<and> error_lines (snd (dsl_iteration e lar s)) = error_lines s
       \<and> serial_logs (asl_iteration e t) = serial_logs t @
           [\<lparr>data = hex P, data_type = ''binary_received'', raw_bytes = hex P,
             byte_count = length P, antenna = Some a\<rparr>]
       \<and> error_lines (asl_iteration e t) = error_lines t"
proof (intro conjI)
  show "serial_logs (snd (dsl_iteration e lar s)) = serial_logs s @
           [\<lparr>data = hex P, data_type = ''binary_received'', raw_bytes = bytes_repr P,
             byte_count = length P, antenna = None\<rparr>]"
    using assms dsl_stores [of e s P rest lar] by simp
  show "error_lines (snd (dsl_iteration e lar s)) = error_lines s"
    using assms by (simp add: dsl_iteration_errors)
  show "serial_logs (asl_iteration e t) = serial_logs t @
           [\<lparr>data = hex P, data_type = ''binary_received'', raw_bytes = hex P,
             byte_count = length P, antenna = Some a\<rparr>]"
    using assms asl_stores [of e t P rest' a] by simp
  show "error_lines (asl_iteration e t) = error_lines t"
    using assms asl_iteration_errors [of e t a] by simp
qed

text \<open>The payload \<^verbatim>\<open>b"\xff\xfe\x00\n"\<close>: one row with the text \<^verbatim>\<open>fffe000a\<close>.\<close>

theorem binary_payload_record_witness:
  "serial_logs (snd (dsl_iteration (quiet 0) 0 (deliver binary dsl_monitoring))) =
     [\<lparr>data = str ''fffe000a'', data_type = ''binary_received'',
       raw_bytes = bytes_repr binary, byte_count = 4, antenna = None\<rparr>]
   \<and> error_lines (snd (dsl_iteration (quiet 0) 0 (deliver binary dsl_monitoring))) = []
   \<and> serial_logs (asl_iteration (quiet 0) (deliver binary (asl_monitoring 2))) =
     [\<lparr>data = str ''fffe000a'', data_type = ''binary_received'',
       raw_bytes = str ''fffe000a'', byte_count = 4, antenna = Some 2\<rparr>]
   \<and> error_lines (asl_iteration (quiet 0) (deliver binary (asl_monitoring 2))) = []"
  using binary_payload_record [of "quiet 0" binary
      "deliver binary dsl_monitoring" "[]" "deliver binary (asl_monitoring 2)" "[]" 2 0]
  by simp


text \<open>
  The insert raises while \<^verbatim>\<open>b"\xff\xfe\x00\n"\<close> is handled: \<^verbatim>\<open>log_data\<close> catches the
  exception and prints it, the payload is counted, and no row is stored. In
  \<^verbatim>\<open>script2.py\<close> the connection is made again, and the row is lost all the same.
\<close>

theorem binary_payload_dropped_counterexample:
  "utf8_decode binary = None
   \<and> serial_logs (snd (dsl_iteration ((quiet 0)\<lparr>insert_fault := Some DbError\<rparr>) 0
         (deliver binary dsl_monitoring))) = []
   \<and> stats (snd (dsl_iteration ((quiet 0)\<lparr>insert_fault := Some DbError\<rparr>) 0
         (deliver binary dsl_monitoring))) =
       \<lparr>bytes_received = 4, messages_received = 1, last_data_time = Some 0\<rparr>
   \<and> error_lines (snd (dsl_iteration ((quiet 0)\<lparr>insert_fault := Some DbError\<rparr>) 0
         (deliver binary dsl_monitoring))) = [PrLoggingError DbError]
   \<and> serial_logs (asl_iteration ((quiet 0)\<lparr>insert_fault := Some DbError\<rparr>)
         (deliver binary (asl_monitoring 2))) = []
   \<and> stats (asl_iteration ((quiet 0)\<lparr>insert_fault := Some DbError\<rparr>)
         (deliver binary (asl_monitoring 2))) =
       \<lparr>bytes_received = 4, messages_received = 1, last_data_time = Some 0\<rparr>
   \<and> db_ready (asl_iteration ((quiet 0)\<lparr>insert_fault := Some DbError\<rparr>)
         (deliver binary (asl_monitoring 2)))"
  by (simp add: dsl_monitoring_eq asl_monitoring_eq run_defs binary_def Let_def
      error_lines_def)

subsection \<open>Reads of no byte, and payloads that are blank\<close>

lemma dsl_iteration_stats_ok:
  assumes "in_waiting_fault e = None" "readline_fault e = None"
    and "port_open s" "readline (rx s) = (P, rest)"
  shows "stats (snd (dsl_iteration e lar s)) =
     (if P = [] then stats s
      else \<lparr>bytes_received = bytes_received (stats s) + int (length P),
            messages_received = messages_received (stats s) + 1,
            last_data_time = Some (now e)\<rparr>)"
  using assms by (simp add: dsl_iteration_stats dsl_read_line_stats)

lemma asl_iteration_stats_ok:
  assumes "readline_fault e = None" "port_open s" "readline (rx s) = (P, rest)"
  shows "stats (asl_iteration e s) =
     (if P = [] then stats s
      else \<lparr>bytes_received = bytes_received (stats s) + int (length P),
            messages_received = messages_received (stats s) + 1,
            last_data_time = Some (now e)\<rparr>)"
  using assms by (simp add: asl_iteration_def asl_read_line_stats)

lemma stats_changed:
  "(\<lparr>bytes_received = bytes_received st + n, messages_received = messages_received st + 1,
     last_data_time = t\<rparr> = st) = False"
  by (cases st) simp

lemma dsl_idle:
  assumes "in_waiting_fault e = None" "readline_fault e = None"
    and "port_open s" "readline (rx s) = ([], rest)"
  shows "serial_logs (snd (dsl_iteration e lar s)) = serial_logs s"
  using assms by (simp add: dsl_iteration_rows dsl_read_line_rows)

lemma asl_idle:
  assumes "readline_fault e = None" "port_open s" "readline (rx s) = ([], rest)"
  shows "serial_logs (asl_iteration e s) = serial_logs s"
  using assms by (simp add: asl_iteration_def asl_read_line_rows)

lemma dsl_iteration_rows_cases:
  assumes "in_waiting_fault e = None" "readline_fault e = None"
    and "port_open s" "readline (rx s) = (P, rest)"
  shows "serial_logs (snd (dsl_iteration e lar s)) =
     (if P \<noteq> [] \<and> db_ready s \<and> insert_fault e = None
      then serial_logs s @
        [case utf8_decode P of
           Some decoded \<Rightarrow>
             \<lparr>data = strip decoded, data_type = ''auto_received'', raw_bytes = bytes_repr P,
              byte_count = length P, antenna = None\<rparr>
         | None \<Rightarrow>
             \<lparr>data = hex P, data_type = ''binary_received'', raw_bytes = bytes_repr P,
              byte_count = length P, antenna = None\<rparr>]
      else serial_logs s)"
  using assms by (simp add: dsl_iteration_rows dsl_read_line_rows dsl_received_rows)

lemma asl_iteration_rows_cases:
  assumes "readline_fault e = None" "port_open s" "readline (rx s) = (P, rest)"
    and "current_antenna s = Some a"
  shows "serial_logs (asl_iteration e s) =
     (if P \<noteq> [] \<and> db_ready s \<and> insert_fault e = None
      then serial_logs s @
        [case utf8_decode P of
           Some decoded \<Rightarrow>
             \<lparr>data = strip decoded, data_type = ''auto_received'', raw_bytes = hex P,
              byte_count = length P, antenna = Some a\<rparr>
         | None \<Rightarrow>
             \<lparr>data = hex P, data_type = ''binary_received'', raw_bytes = hex P,
              byte_count = length P, antenna = Some a\<rparr>]
      else serial_logs s)"
  using assms by (simp add: asl_iteration_def asl_read_line_rows asl_received_rows)

text \<open>
  Claim C9, as the code has it. With the port open and no fault of the port, one pass
  through the loop body changes the statistics exactly when the line read returned at
  least one byte, whatever the store does, and a read of no byte adds no row. Provided
  that the store is connected and accepts the insert, the pass adds a row exactly when
  the line read returned at least one byte; a payload that decodes to nothing but white
  space is then stored, with the empty text. The claim has no such proviso: see the
  counterexample.
\<close>

theorem row_iff_bytes_read:
  assumes "in_waiting_fault e = None" and "readline_fault e = None"
    and "port_open s" and "readline (rx s) = (P, rest)"
    and "port_open t" and "readline (rx t) = (P, rest')"
    and "current_antenna t = Some a"
  shows "(stats (snd (dsl_iteration e lar s)) \<noteq> stats s) = (P \<noteq> [])
       \<and> (stats (asl_iteration e t) \<noteq> stats t) = (P \<noteq> [])
       \<and> (P = [] \<longrightarrow> serial_logs (snd (dsl_iteration e lar s)) = serial_logs s
                    \<and> serial_logs (asl_iteration e t) = serial_logs t)
       \<and> (db_ready s \<and> insert_fault e = None \<longrightarrow>
            (serial_logs (snd (dsl_iteration e lar s)) \<noteq> serial_logs s) = (P \<noteq> []))
       \<and> (db_ready t \<and> insert_fault e = None \<longrightarrow>
            (serial_logs (asl_iteration e t) \<noteq> serial_logs t) = (P \<noteq> []))
       \<and> (db_ready s \<and> insert_fault e = None \<and> P \<noteq> []
            \<and> map_option strip (utf8_decode P) = Some [] \<longrightarrow>
            serial_logs (snd (dsl_iteration e lar s)) = serial_logs s @
              [\<lparr>data = [], data_type = ''auto_received'', raw_bytes = bytes_repr P,
                byte_count = length P, antenna = None\<rparr>])
       \<and> (db_ready t \<and> insert_fault e = None \<and> P \<noteq> []
            \<and> map_option strip (utf8_decode P) = Some [] \<longrightarrow>
            serial_logs (asl_iteration e t) = serial_logs t @
              [\<lparr>data = [], data_type = ''auto_received'', raw_bytes = hex P,
                byte_count = length P, antenna = Some a\<rparr>])"
  using assms dsl_iteration_rows_cases [of e s P rest lar]
    asl_iteration_rows_cases [of e t P rest' a]
    dsl_iteration_stats_ok [of e s P rest lar] asl_iteration_stats_ok [of e t P rest']
  by (auto simp: stats_changed)

text \<open>
  A pass that reads nothing, and a pass that reads \<^verbatim>\<open>b"\n"\<close>: the first leaves table and
  statistics as they are, the second stores the empty text and counts one message of
  one byte.
\<close>

theorem row_iff_bytes_read_witness:
  "serial_logs (snd (dsl_iteration (quiet 0) 0 (deliver [] dsl_monitoring))) = []
   \<and> stats (snd (dsl_iteration (quiet 0) 0 (deliver [] dsl_monitoring))) =
       \<lparr>bytes_received = 0, messages_received = 0, last_data_time = None\<rparr>
   \<and> serial_logs (asl_iteration (quiet 0) (deliver [] (asl_monitoring 2))) = []
   \<and> serial_logs (snd (dsl_iteration (quiet 0) 0 (deliver newline dsl_monitoring))) =
       [\<lparr>data = [], data_type = ''auto_received'', raw_bytes = bytes_repr newline,
         byte_count = 1, antenna = None\<rparr>]
   \<and> serial_logs (asl_iteration (quiet 0) (deliver newline (asl_monitoring 2))) =
       [\<lparr>data = [], data_type = ''auto_received'', raw_bytes = hex newline,
         byte_count = 1, antenna = Some 2\<rparr>]
   \<and> stats (snd (dsl_iteration (quiet 0) 0 (deliver newline dsl_monitoring))) \<noteq>
       \<lparr>bytes_received = 0, messages_received = 0, last_data_time = None\<rparr>"
proof -
  have nl: "readline newline = (newline, [])" "newline \<noteq> []" "length newline = 1"
    "map_option strip (utf8_decode newline) = Some []"
    by (simp_all add: newline_def strip_def rstrip_def isspace_def)
  show ?thesis
    using row_iff_bytes_read [of "quiet 0" "deliver [] dsl_monitoring" "[]" "[]"
        "deliver [] (asl_monitoring 2)" "[]" 2 0]
      row_iff_bytes_read [of "quiet 0" "deliver newline dsl_monitoring" newline "[]"
        "deliver newline (asl_monitoring 2)" "[]" 2 0]
    by (simp add: nl)
qed

text \<open>
  The insert raises while \<^verbatim>\<open>b"hello\n"\<close> is handled: six bytes were read and the
  statistics show them, and the table has no row.
\<close>

theorem counted_not_stored_counterexample:
  "readline (rx (deliver hello dsl_monitoring)) = (hello, [])
   \<and> serial_logs (snd (dsl_iteration ((quiet 0)\<lparr>insert_fault := Some DbError\<rparr>) 0
         (deliver hello dsl_monitoring))) = serial_logs (deliver hello dsl_monitoring)
   \<and> stats (snd (dsl_iteration ((quiet 0)\<lparr>insert_fault := Some DbError\<rparr>) 0
         (deliver hello dsl_monitoring))) =
       \<lparr>bytes_received = 6, messages_received = 1, last_data_time = Some 0\<rparr>
   \<and> stats (deliver hello dsl_monitoring) =
       \<lparr>bytes_received = 0, messages_received = 0, last_data_time = None\<rparr>
   \<and> serial_logs (asl_iteration ((quiet 0)\<lparr>insert_fault := Some DbError\<rparr>)
         (deliver hello (asl_monitoring 2))) = serial_logs (deliver hello (asl_monitoring 2))
   \<and> stats (asl_iteration ((quiet 0)\<lparr>insert_fault := Some DbError\<rparr>)
         (deliver hello (asl_monitoring 2))) =
       \<lparr>bytes_received = 6, messages_received = 1, last_data_time = Some 0\<rparr>"
  by (simp add: dsl_monitoring_eq asl_monitoring_eq run_defs hello_def Let_def)

section \<open>The counters\<close>

lemma thread_exit_frame [simp]:
  "serial_conn (thread_exit tid s) = serial_conn s"
  "db_conn (thread_exit tid s) = db_conn s"
  "serial_logs (thread_exit tid s) = serial_logs s"
  "running (thread_exit tid s) = running s"
  "log_thread (thread_exit tid s) = log_thread s"
  "stats (thread_exit tid s) = stats s"
  "current_antenna (thread_exit tid s) = current_antenna s"
  "spawned (thread_exit tid s) = spawned s"
  "console (thread_exit tid s) = console s"
  "port_open (thread_exit tid s) = port_open s"
  "rx (thread_exit tid s) = rx s"
  "db_ready (thread_exit tid s) = db_ready s"
  by (simp_all add: thread_exit_def port_open_def rx_def db_ready_def)

lemma close_port_frame [simp]:
  "db_conn (close_port s) = db_conn s"
  "serial_logs (close_port s) = serial_logs s"
  "running (close_port s) = running s"
  "log_thread (close_port s) = log_thread s"
  "stats (close_port s) = stats s"
  "current_antenna (close_port s) = current_antenna s"
  "threads (close_port s) = threads s"
  "spawned (close_port s) = spawned s"
  "console (close_port s) = console s"
  "db_ready (close_port s) = db_ready s"
  "is_alive tid (close_port s) = is_alive tid s"
  "port_open (close_port s) = False"
  by (simp_all add: close_port_def db_ready_def is_alive_def port_open_def split: option.splits)

lemma join_frame [simp]:
  "serial_conn (snd (join timeout need s)) = serial_conn s"
  "db_conn (snd (join timeout need s)) = db_conn s"
  "serial_logs (snd (join timeout need s)) = serial_logs s"
  "running (snd (join timeout need s)) = running s"
  "log_thread (snd (join timeout need s)) = log_thread s"
  "stats (snd (join timeout need s)) = stats s"
  "current_antenna (snd (join timeout need s)) = current_antenna s"
  "spawned (snd (join timeout need s)) = spawned s"
  "console (snd (join timeout need s)) = console s"
  by (simp_all add: join_def split: option.splits)

lemma dsl_stop_snd:
  "snd (dsl_stop need s) =
     show_stats (print PrStopped (close_db (close_port
       (snd (join 2000 need ((print PrStopping s)\<lparr>running := False\<rparr>))))))"
  by (simp add: dsl_stop_def split: prod.splits)

lemma asl_stop_snd:
  "snd (asl_stop need s) =
     asl_show_stats (print PrStopped (close_db (close_port
       (snd (join 2000 need ((print PrStopping s)\<lparr>running := False\<rparr>))))))"
  by (simp add: asl_stop_def split: prod.splits)

lemma asl_show_stats_frame [simp]:
  "serial_conn (asl_show_stats s) = serial_conn s"
  "db_conn (asl_show_stats s) = db_conn s"
  "serial_logs (asl_show_stats s) = serial_logs s"
  "running (asl_show_stats s) = running s"
  "log_thread (asl_show_stats s) = log_thread s"
  "stats (asl_show_stats s) = stats s"
  "current_antenna (asl_show_stats s) = current_antenna s"
  "threads (asl_show_stats s) = threads s"
  "spawned (asl_show_stats s) = spawned s"
  "port_open (asl_show_stats s) = port_open s"
  "db_ready (asl_show_stats s) = db_ready s"
  "is_alive tid (asl_show_stats s) = is_alive tid s"
  by (simp_all add: asl_show_stats_def)

lemma dsl_poll_cases:
  obtains (absent) "\<not> is_alive tid s" and "dsl_poll tid e s = s"
  | (leave) "is_alive tid s" and "\<not> running s" and "dsl_poll tid e s = thread_exit tid s"
  | (pass) lar th where "is_alive tid s" and "running s"
      and "dsl_poll tid e s = (snd (dsl_iteration e lar s))\<lparr>threads := th\<rparr>"
proof (cases "map_of (threads s) tid")
  case None
  then show thesis using absent by (simp add: is_alive_def dsl_poll_def)
next
  case (Some loc)
  show thesis
  proof (cases "running s")
    case False
    with Some show thesis using leave by (simp add: is_alive_def dsl_poll_def)
  next
    case True
    define lar where "lar = (case loc of None \<Rightarrow> now e | Some t \<Rightarrow> t)"
    define th where "th = map (\<lambda>p. if fst p = tid then (tid, Some (fst (dsl_iteration e lar s)))
                                   else p)
                            (threads (snd (dsl_iteration e lar s)))"
    have "dsl_poll tid e s = (snd (dsl_iteration e lar s))\<lparr>threads := th\<rparr>"
      using Some True by (simp add: dsl_poll_def lar_def th_def split: prod.splits)
    moreover have "is_alive tid s" using Some by (simp add: is_alive_def)
    ultimately show thesis using True by (rule pass [rotated 2])
  qed
qed

lemma asl_poll_cases:
  obtains (absent) "\<not> is_alive tid s" and "asl_poll tid e s = s"
  | (leave) "is_alive tid s" and "\<not> running s" and "asl_poll tid e s = thread_exit tid s"
  | (pass) "is_alive tid s" and "running s" and "asl_poll tid e s = asl_iteration e s"
  by (cases "map_of (threads s) tid"; cases "running s")
     (simp_all add: is_alive_def asl_poll_def)

lemma dsl_poll_stats:
  "stats (dsl_poll tid e s) =
     (if dsl_payload tid e s = [] then stats s
      else \<lparr>bytes_received = bytes_received (stats s) + int (length (dsl_payload tid e s)),
            messages_received = messages_received (stats s) + 1,
            last_data_time = Some (now e)\<rparr>)"
  by (rule dsl_poll_cases [of tid s e])
     (simp_all add: dsl_payload_def dsl_iteration_stats dsl_read_line_stats)

lemma asl_poll_stats:
  "stats (asl_poll tid e s) =
     (if asl_payload tid e s = [] then stats s
      else \<lparr>bytes_received = bytes_received (stats s) + int (length (asl_payload tid e s)),
            messages_received = messages_received (stats s) + 1,
            last_data_time = Some (now e)\<rparr>)"
  by (rule asl_poll_cases [of tid s e])
     (simp_all add: asl_payload_def asl_iteration_def asl_read_line_stats)

lemma dsl_step_stats:
  "stats (dsl_step s ev) =
     (case ev of DPoll tid e \<Rightarrow> stats (dsl_poll tid e s) | _ \<Rightarrow> stats s)"
  by (cases ev)
     (auto simp: deliver_def connect_def dsl_start_monitoring_def send_command_def
        test_connection_def dsl_stop_snd Let_def
      split: option.splits sum.splits prod.splits)

lemma asl_step_stats:
  "stats (asl_step s ev) =
     (case ev of APoll tid e \<Rightarrow> stats (asl_poll tid e s) | _ \<Rightarrow> stats s)"
  by (cases ev)
     (auto simp: deliver_def connect_def set_antenna_def asl_start_monitoring_def
        cmd_start_def ctrl_c_def asl_stop_snd
      split: option.splits)


lemma dsl_run_Cons [simp]: "dsl_run s (ev # evs) = dsl_run (dsl_step s ev) evs"
  by (simp add: dsl_run_def)

lemma dsl_run_Nil [simp]: "dsl_run s [] = s"
  by (simp add: dsl_run_def)

lemma asl_run_Cons [simp]: "asl_run s (ev # evs) = asl_run (asl_step s ev) evs"
  by (simp add: asl_run_def)

lemma asl_run_Nil [simp]: "asl_run s [] = s"
  by (simp add: asl_run_def)

lemma dsl_step_counters:
  "bytes_received (stats s) \<le> bytes_received (stats (dsl_step s ev))
   \<and> messages_received (stats s) \<le> messages_received (stats (dsl_step s ev))
   \<and> (messages_received (stats s) < messages_received (stats (dsl_step s ev)) \<longrightarrow>
        bytes_received (stats s) < bytes_received (stats (dsl_step s ev)))"
  by (simp add: dsl_step_stats dsl_poll_stats split: dsl_event.splits)

lemma asl_step_counters:
  "bytes_received (stats s) \<le> bytes_received (stats (asl_step s ev))
   \<and> messages_received (stats s) \<le> messages_received (stats (asl_step s ev))
   \<and> (messages_received (stats s) < messages_received (stats (asl_step s ev)) \<longrightarrow>
        bytes_received (stats s) < bytes_received (stats (asl_step s ev)))"
  by (simp add: asl_step_stats asl_poll_stats split: asl_event.splits)

lemma dsl_run_counters:
  "bytes_received (stats s) \<le> bytes_received (stats (dsl_run s evs))
   \<and> messages_received (stats s) \<le> messages_received (stats (dsl_run s evs))"
proof (induction evs arbitrary: s)
  case Nil
  show ?case by simp
next
  case (Cons ev evs)
  from Cons [of "dsl_step s ev"] dsl_step_counters [of s ev]
  show ?case by simp
qed

lemma asl_run_counters:
  "bytes_received (stats s) \<le> bytes_received (stats (asl_run s evs))
   \<and> messages_received (stats s) \<le> messages_received (stats (asl_run s evs))"
proof (induction evs arbitrary: s)
  case Nil
  show ?case by simp
next
  case (Cons ev evs)
  from Cons [of "asl_step s ev"] asl_step_counters [of s ev]
  show ?case by simp
qed

text \<open>
  Claim C10. No event of a run of either script (bytes delivered by the device, a turn of
  a polling thread, \<^verbatim>\<open>connect\<close>, \<^verbatim>\<open>start_monitoring\<close>, \<^verbatim>\<open>show_stats\<close>, \<^verbatim>\<open>send_command\<close>,
  \<^verbatim>\<open>test_connection\<close>, \<^verbatim>\<open>set_antenna\<close>, the commands of the interactive loop, \<^verbatim>\<open>stop\<close>)
  lowers \<^verbatim>\<open>bytes_received\<close> or \<^verbatim>\<open>messages_received\<close>; an event that raises
  \<^verbatim>\<open>messages_received\<close> raises \<^verbatim>\<open>bytes_received\<close> as well; and so neither counter is lower at
  the end of a run than at its start.
\<close>

theorem counters_never_decrease:
  "bytes_received (stats s) \<le> bytes_received (stats (dsl_step s ev))
   \<and> messages_received (stats s) \<le> messages_received (stats (dsl_step s ev))
   \<and> (messages_received (stats s) < messages_received (stats (dsl_step s ev)) \<longrightarrow>
        bytes_received (stats s) < bytes_received (stats (dsl_step s ev)))
   \<and> bytes_received (stats s) \<le> bytes_received (stats (dsl_run s evs))
   \<and> messages_received (stats s) \<le> messages_received (stats (dsl_run s evs))
   \<and> bytes_received (stats t) \<le> bytes_received (stats (asl_step t ev'))
   \<and> messages_received (stats t) \<le> messages_received (stats (asl_step t ev'))
   \<and> (messages_received (stats t) < messages_received (stats (asl_step t ev')) \<longrightarrow>
        bytes_received (stats t) < bytes_received (stats (asl_step t ev')))
   \<and> bytes_received (stats t) \<le> bytes_received (stats (asl_run t evs'))
   \<and> messages_received (stats t) \<le> messages_received (stats (asl_run t evs'))"
  using dsl_step_counters [of s ev] dsl_run_counters [of s evs]
    asl_step_counters [of t ev'] asl_run_counters [of t evs']
  by simp

text \<open>A turn that reads \<^verbatim>\<open>b"hello\n"\<close> raises the message counter, and the byte counter.\<close>

theorem counters_never_decrease_witness:
  "messages_received (stats (deliver hello dsl_monitoring))
     < messages_received (stats (dsl_step (deliver hello dsl_monitoring) (DPoll 0 (quiet 0))))
   \<and> bytes_received (stats (deliver hello dsl_monitoring))
     < bytes_received (stats (dsl_step (deliver hello dsl_monitoring) (DPoll 0 (quiet 0))))
   \<and> messages_received (stats (deliver hello (asl_monitoring 2)))
     < messages_received (stats (asl_step (deliver hello (asl_monitoring 2)) (APoll 0 (quiet 0))))
   \<and> bytes_received (stats (deliver hello (asl_monitoring 2)))
     < bytes_received (stats (asl_step (deliver hello (asl_monitoring 2)) (APoll 0 (quiet 0))))"
proof -
  have "dsl_payload 0 (quiet 0) (deliver hello dsl_monitoring) = hello"
    by (simp add: dsl_payload_def is_alive_def)
  moreover have "asl_payload 0 (quiet 0) (deliver hello (asl_monitoring 2)) = hello"
    by (simp add: asl_payload_def is_alive_def)
  ultimately show ?thesis
    using counters_never_decrease [of "deliver hello dsl_monitoring" "DPoll 0 (quiet 0)" "[]"
        "deliver hello (asl_monitoring 2)" "APoll 0 (quiet 0)" "[]"]
    by (simp add: dsl_poll_stats asl_poll_stats)
qed

subsection \<open>Counting the reads of a run\<close>

lemma dsl_run_counts:
  "messages_received (stats (dsl_run s evs)) =
     messages_received (stats s) + int (length (dsl_reads s evs))
   \<and> bytes_received (stats (dsl_run s evs)) =
     bytes_received (stats s) + int (sum_list (map length (dsl_reads s evs)))"
  by (induction s evs rule: dsl_reads.induct)
     (simp_all add: dsl_poll_stats dsl_step_stats del: dsl_step.simps)

lemma asl_run_counts:
  "messages_received (stats (asl_run s evs)) =
     messages_received (stats s) + int (length (asl_reads s evs))
   \<and> bytes_received (stats (asl_run s evs)) =
     bytes_received (stats s) + int (sum_list (map length (asl_reads s evs)))"
  by (induction s evs rule: asl_reads.induct)
     (simp_all add: asl_poll_stats asl_step_stats del: asl_step.simps)

text \<open>
  Claim C4, as the code has it. The polling thread runs the three assignments one after
  the other, and at the end of the block all three are in place. Neither script guards
  the block against the reader, so the atomicity that the claim asks for is not there
  (see the counterexample); what holds is the count at the boundaries of the passes:
  after a run in which \<open>N\<close> line reads returned at least one byte, \<open>B\<close> bytes in all,
  \<^verbatim>\<open>messages_received\<close> has grown by \<open>N\<close> and \<^verbatim>\<open>bytes_received\<close> by \<open>B\<close>, and from a new
  logger they are \<open>N\<close> and \<open>B\<close>.
\<close>

theorem statistics_count_reads:
  "stats (update_stats raw t s) =
     \<lparr>bytes_received = bytes_received (stats s) + int (length raw),
      messages_received = messages_received (stats s) + 1,
      last_data_time = Some t\<rparr>
   \<and> messages_received (stats (dsl_run s evs)) =
       messages_received (stats s) + int (length (dsl_reads s evs))
   \<and> bytes_received (stats (dsl_run s evs)) =
       bytes_received (stats s) + int (sum_list (map length (dsl_reads s evs)))
   \<and> messages_received (stats (dsl_run (dsl_init old) evs)) =
       int (length (dsl_reads (dsl_init old) evs))
   \<and> bytes_received (stats (dsl_run (dsl_init old) evs)) =
       int (sum_list (map length (dsl_reads (dsl_init old) evs)))
   \<and> messages_received (stats (asl_run s evs')) =
       messages_received (stats s) + int (length (asl_reads s evs'))
   \<and> bytes_received (stats (asl_run s evs')) =
       bytes_received (stats s) + int (sum_list (map length (asl_reads s evs')))
   \<and> messages_received (stats (asl_run asl_fresh evs')) =
       int (length (asl_reads asl_fresh evs'))
   \<and> bytes_received (stats (asl_run asl_fresh evs')) =
       int (sum_list (map length (asl_reads asl_fresh evs')))"
proof -
  have "stats (dsl_init old) =
      \<lparr>bytes_received = 0, messages_received = 0, last_data_time = None\<rparr>"
    by (simp add: dsl_init_def)
  moreover have "stats asl_fresh =
      \<lparr>bytes_received = 0, messages_received = 0, last_data_time = None\<rparr>"
    by (simp add: asl_fresh_def asl_init_def)
  ultimately show ?thesis
    using dsl_run_counts [of s evs] dsl_run_counts [of "dsl_init old" evs]
      asl_run_counts [of s evs'] asl_run_counts [of asl_fresh evs']
    by simp
qed

text \<open>
  While the polling thread handles \<^verbatim>\<open>b"hello\n"\<close> on a new logger, a reader that runs
  after the first assignment sees six bytes and no message.
\<close>

theorem statistics_torn_counterexample:
  "reader_views hello 0 (stats dsl_monitoring) ! 1 =
     \<lparr>bytes_received = 6, messages_received = 0, last_data_time = None\<rparr>
   \<and> stats (update_stats hello 0 dsl_monitoring) =
     \<lparr>bytes_received = 6, messages_received = 1, last_data_time = Some 0\<rparr>"
  by (simp add: reader_views_def stats_block_def dsl_monitoring_eq upt_rec)


section \<open>What a pass takes from the port\<close>

lemma rx_set_rx: "rx (set_rx bs s) = (if serial_conn s = None then [] else bs)"
  by (simp add: rx_def set_rx_def split: option.splits)

lemma rx_closed: "\<not> port_open s \<Longrightarrow> serial_conn s = None \<Longrightarrow> rx s = []"
  by (simp add: rx_def)

lemma dsl_read_line_rx:
  "port_open s \<Longrightarrow>
   rx (dsl_read_line e s) = (if readline_fault e = None then snd (readline (rx s)) else rx s)"
  by (cases "readline (rx s)") (auto simp: dsl_read_line_def split: option.splits)

lemma dsl_read_single_rx:
  "port_open s \<Longrightarrow>
   rx (dsl_read_single e s) = (if peek_fault e = None then drop 1 (rx s) else rx s)"
  by (auto simp: dsl_read_single_def drop_Suc split: option.splits list.splits)

lemma dsl_iteration_rx:
  "rx (snd (dsl_iteration e lar s)) =
     (if port_open s \<and> in_waiting_fault e = None
      then (if peek_fault e = None then drop 1 else id)
             (if readline_fault e = None then snd (readline (rx s)) else rx s)
      else rx s)"
  by (simp add: dsl_iteration_def dsl_try_body_def dsl_read_single_rx dsl_read_line_rx
      split: option.splits)

lemma asl_received_rx [simp]: "rx (final (asl_received e raw s)) = rx s"
  by (simp add: rx_def)

lemma rx_console [simp]: "rx (s\<lparr>console := c\<rparr>) = rx s"
  by (simp add: rx_def)

lemma asl_read_line_rx:
  "port_open s \<Longrightarrow>
   rx (asl_read_line e s) = (if readline_fault e = None then snd (readline (rx s)) else rx s)"
  by (rule asl_read_line_cases [of e s]) simp_all

text \<open>
  Claim C8, as the code has it. A pass through the loop body of \<^verbatim>\<open>script2.py\<close> takes
  bytes from the port through the line read only. A pass of \<^verbatim>\<open>script.py\<close> has a second
  read: after the line read, when bytes are still waiting, \<^verbatim>\<open>read(1)\<close> takes one more
  byte, which is printed and neither stored nor counted.
\<close>

theorem bytes_taken_by_a_pass:
  "rx (asl_iteration e t) =
     (if port_open t \<and> readline_fault e = None then snd (readline (rx t)) else rx t)
   \<and> rx (snd (dsl_iteration e lar s)) =
     (if port_open s \<and> in_waiting_fault e = None
      then (if peek_fault e = None then drop 1 else id)
             (if readline_fault e = None then snd (readline (rx s)) else rx s)
      else rx s)
   \<and> serial_logs (dsl_read_single e s) = serial_logs s
   \<and> stats (dsl_read_single e s) = stats s"
  by (simp add: asl_iteration_def asl_read_line_rx dsl_iteration_rx)

text \<open>
  With \<^verbatim>\<open>b"ab\ncd"\<close> waiting, one pass of \<^verbatim>\<open>script.py\<close> reads the line \<^verbatim>\<open>ab\<close>, then takes
  the byte \<^verbatim>\<open>c\<close> as well: only \<^verbatim>\<open>d\<close> is left for the next line read, and \<^verbatim>\<open>c\<close> is in no
  row.
\<close>

theorem single_byte_read_counterexample:
  "snd (readline two_lines) = [0x63, 0x64]
   \<and> rx (snd (dsl_iteration (quiet 0) 0 (deliver two_lines dsl_monitoring))) = [0x64]
   \<and> map data (serial_logs (snd (dsl_iteration (quiet 0) 0 (deliver two_lines dsl_monitoring))))
       = [str ''ab'']
   \<and> stats (snd (dsl_iteration (quiet 0) 0 (deliver two_lines dsl_monitoring))) =
       \<lparr>bytes_received = 3, messages_received = 1, last_data_time = Some 0\<rparr>"
proof -
  have rl: "readline two_lines = ([0x61, 0x62, 0x0A], [0x63, 0x64])"
    by (simp add: two_lines_def)
  have dec: "strip [97, 98, 10] = str ''ab''"
    by (simp add: str_def strip_def rstrip_def isspace_def)
  show ?thesis
    using dsl_stores [of "quiet 0" "deliver two_lines dsl_monitoring" "[0x61, 0x62, 0x0A]"
        "[0x63, 0x64]" 0]
      dsl_iteration_stats_ok [of "quiet 0" "deliver two_lines dsl_monitoring"
        "[0x61, 0x62, 0x0A]" "[0x63, 0x64]" 0]
    by (simp add: rl dec dsl_iteration_rx)
qed


section \<open>Faults and the life of the polling thread\<close>

lemma is_alive_iff: "is_alive tid s = (tid \<in> set (map fst (threads s)))"
  by (simp add: is_alive_def map_of_eq_None_iff)

lemma console_update_derived [simp]:
  "port_open (s\<lparr>console := c\<rparr>) = port_open s"
  "db_ready (s\<lparr>console := c\<rparr>) = db_ready s"
  "is_alive tid (s\<lparr>console := c\<rparr>) = is_alive tid s"
  by (simp_all add: port_open_def db_ready_def is_alive_def)

lemma serial_logs_update_derived [simp]:
  "port_open (s\<lparr>serial_logs := l\<rparr>) = port_open s"
  "db_ready (s\<lparr>serial_logs := l\<rparr>) = db_ready s"
  "is_alive tid (s\<lparr>serial_logs := l\<rparr>) = is_alive tid s"
  "rx (s\<lparr>serial_logs := l\<rparr>) = rx s"
  by (simp_all add: port_open_def db_ready_def is_alive_def rx_def)

lemma db_ready_conn: "db_ready s \<Longrightarrow> db_conn s \<noteq> None"
  by (cases "db_conn s") (simp_all add: db_ready_def)

lemma threads_update_derived [simp]:
  "port_open (s\<lparr>threads := th\<rparr>) = port_open s"
  "db_ready (s\<lparr>threads := th\<rparr>) = db_ready s"
  "rx (s\<lparr>threads := th\<rparr>) = rx s"
  "error_lines (s\<lparr>threads := th\<rparr>) = error_lines s"
  by (simp_all add: port_open_def db_ready_def rx_def error_lines_def)

lemma dsl_iteration_frame [simp]:
  "running (snd (dsl_iteration e lar s)) = running s"
  "threads (snd (dsl_iteration e lar s)) = threads s"
  "log_thread (snd (dsl_iteration e lar s)) = log_thread s"
  "current_antenna (snd (dsl_iteration e lar s)) = current_antenna s"
  "spawned (snd (dsl_iteration e lar s)) = spawned s"
  "db_conn (snd (dsl_iteration e lar s)) = db_conn s"
  "port_open (snd (dsl_iteration e lar s)) = port_open s"
  "db_ready (snd (dsl_iteration e lar s)) = db_ready s"
  by (simp_all add: dsl_iteration_def dsl_try_body_def split: option.splits)

lemma dsl_poll_frame [simp]:
  "running (dsl_poll tid e s) = running s"
  "log_thread (dsl_poll tid e s) = log_thread s"
  "current_antenna (dsl_poll tid e s) = current_antenna s"
  "spawned (dsl_poll tid e s) = spawned s"
  "db_conn (dsl_poll tid e s) = db_conn s"
  "port_open (dsl_poll tid e s) = port_open s"
  "db_ready (dsl_poll tid e s) = db_ready s"
  by (rule dsl_poll_cases [of tid s e]; simp)+

lemma dsl_poll_tids:
  "map fst (threads (dsl_poll tid e s)) =
     (if running s then map fst (threads s)
      else filter (\<lambda>i. i \<noteq> tid) (map fst (threads s)))"
proof (cases "map_of (threads s) tid")
  case None
  then have "tid \<notin> set (map fst (threads s))"
    by (simp add: map_of_eq_None_iff)
  then have "filter (\<lambda>i. i \<noteq> tid) (map fst (threads s)) = map fst (threads s)"
    by (auto simp: filter_id_conv)
  with None show ?thesis by (simp add: dsl_poll_def)
next
  case (Some loc)
  define lar where "lar = (case loc of None \<Rightarrow> now e | Some t \<Rightarrow> t)"
  obtain l s' where it: "dsl_iteration e lar s = (l, s')"
    by (cases "dsl_iteration e lar s")
  have same: "threads s' = threads s"
    using dsl_iteration_frame(2) [of e lar s] it by simp
  have keys: "map fst (map (\<lambda>p. if fst p = tid then (tid, v) else p) xs) = map fst xs"
    for v :: "clock option" and xs :: "(nat \<times> clock option) list"
    by (induction xs) auto
  show ?thesis
  proof (cases "running s")
    case True
    then have "threads (dsl_poll tid e s) =
        map (\<lambda>p. if fst p = tid then (tid, Some l) else p) (threads s)"
      using Some it same by (simp add: dsl_poll_def lar_def)
    with True show ?thesis by (simp only: keys if_True)
  next
    case False
    with Some show ?thesis
      by (simp add: dsl_poll_def thread_exit_def filter_map comp_def)
  qed
qed

lemma asl_iteration_frame [simp]:
  "running (asl_iteration e s) = running s"
  "threads (asl_iteration e s) = threads s"
  "log_thread (asl_iteration e s) = log_thread s"
  "current_antenna (asl_iteration e s) = current_antenna s"
  "spawned (asl_iteration e s) = spawned s"
  "port_open (asl_iteration e s) = port_open s"
  by (simp_all add: asl_iteration_def)

lemma asl_poll_frame [simp]:
  "running (asl_poll tid e s) = running s"
  "log_thread (asl_poll tid e s) = log_thread s"
  "current_antenna (asl_poll tid e s) = current_antenna s"
  "spawned (asl_poll tid e s) = spawned s"
  "port_open (asl_poll tid e s) = port_open s"
  by (rule asl_poll_cases [of tid s e]; simp)+

lemma asl_poll_tids:
  "map fst (threads (asl_poll tid e s)) =
     (if running s then map fst (threads s)
      else filter (\<lambda>i. i \<noteq> tid) (map fst (threads s)))"
proof (cases "map_of (threads s) tid")
  case None
  then have "tid \<notin> set (map fst (threads s))"
    by (simp add: map_of_eq_None_iff)
  then have "filter (\<lambda>i. i \<noteq> tid) (map fst (threads s)) = map fst (threads s)"
    by (auto simp: filter_id_conv)
  with None show ?thesis by (simp add: asl_poll_def)
next
  case (Some loc)
  then show ?thesis
    by (simp add: asl_poll_def thread_exit_def filter_map comp_def)
qed

lemma join_tids:
  "set (map fst (threads (snd (join timeout need s)))) \<subseteq> set (map fst (threads s))"
  by (auto simp: join_def thread_exit_def split: option.splits)

lemma dsl_step_leaves:
  assumes "is_alive tid s" "\<not> is_alive tid (dsl_step s ev)"
  shows "\<not> running (dsl_step s ev)"
proof (cases ev)
  case (DPoll i e)
  with assms show ?thesis
    by (auto simp: is_alive_iff dsl_poll_tids split: if_splits)
next
  case (DStop need)
  then show ?thesis by (simp add: dsl_stop_snd)
qed (use assms in \<open>auto simp: is_alive_iff deliver_def connect_def dsl_start_monitoring_def
      send_command_def test_connection_def Let_def print_def
      split: option.splits if_splits\<close>)

lemma asl_step_leaves:
  assumes "is_alive tid s" "\<not> is_alive tid (asl_step s ev)"
  shows "\<not> running (asl_step s ev)"
proof (cases ev)
  case (APoll i e)
  with assms show ?thesis
    by (auto simp: is_alive_iff asl_poll_tids split: if_splits)
next
  case (AStop need)
  then show ?thesis by (simp add: asl_stop_snd)
next
  case ACtrlC
  then show ?thesis by (simp add: ctrl_c_def)
qed (use assms in \<open>auto simp: is_alive_iff deliver_def connect_def asl_start_monitoring_def
      set_antenna_def cmd_start_def asl_show_stats_def show_stats_def print_def
      split: option.splits if_splits\<close>)


subsection \<open>Faults are printed\<close>

lemma dsl_in_waiting_logged:
  "port_open s \<Longrightarrow> in_waiting_fault e = Some x \<Longrightarrow>
   snd (dsl_iteration e lar s) = print (PrMonitorLoopError x) s"
  by (simp add: dsl_iteration_def dsl_try_body_def)

lemma dsl_readline_logged:
  "port_open s \<Longrightarrow> in_waiting_fault e = None \<Longrightarrow> readline_fault e = Some x \<Longrightarrow>
   error_lines (snd (dsl_iteration e lar s)) = error_lines s @ [PrReadError x]"
  by (simp add: dsl_iteration_def dsl_try_body_def dsl_read_line_def)

lemma dsl_insert_logged:
  assumes "port_open s" "db_ready s" "in_waiting_fault e = None" "readline_fault e = None"
    and "readline (rx s) = (P, rest)" "P \<noteq> []" "insert_fault e = Some x"
  shows "error_lines (snd (dsl_iteration e lar s)) = error_lines s @ [PrLoggingError x]
       \<and> serial_logs (snd (dsl_iteration e lar s)) = serial_logs s"
proof -
  have "error_lines (dsl_received e P s') = error_lines s' @ [PrLoggingError x]"
    if "db_ready s'" for s'
    using that assms(7)
    by (cases "utf8_decode P")
       (simp_all add: dsl_received_def Let_def dsl_log_data_errors db_ready_conn)
  then have "error_lines (dsl_read_line e s') = error_lines s' @ [PrLoggingError x]"
    if "db_ready s'" "readline (rx s') = (P, rest)" for s'
    using that assms by (simp add: dsl_read_line_def)
  then show ?thesis
    using assms
    by (simp add: dsl_iteration_def dsl_try_body_def dsl_read_line_rows dsl_received_rows)
qed

lemma asl_readline_logged:
  "port_open s \<Longrightarrow> readline_fault e = Some x \<Longrightarrow>
   asl_iteration e s = print (PrReadError x) s"
  by (simp add: asl_iteration_def asl_read_line_fault)

lemma after_reconnect_console:
  "set (console s) \<union> {PrReconnecting} \<subseteq> set (console (after_reconnect f s))"
  by (auto simp: after_reconnect_def reconnect_db_def Let_def print_def close_db_def
      split: option.splits)

lemma asl_log_data_console:
  "set (console s) \<subseteq> set (console (final (asl_log_data e d raw a ty s)))"
  using after_reconnect_console [of "print (PrMySQLLoggingError DbError) s" "reconnect_fault e"]
  by (auto simp: asl_log_data_final split: option.splits)

lemma asl_log_data_logged:
  assumes "db_ready s" "insert_fault e = Some x"
  shows "(if x = DbError then {PrMySQLLoggingError x, PrReconnecting} else {PrLoggingError x})
           \<subseteq> set (console (final (asl_log_data e d raw a ty s)))"
  using assms
    after_reconnect_console [of "print (PrMySQLLoggingError DbError) s" "reconnect_fault e"]
  by (auto simp: asl_log_data_final)

lemma asl_binary_console:
  "set (console s) \<subseteq> set (console (final (asl_binary e raw s)))"
proof (cases "current_antenna s")
  case None
  then show ?thesis by (simp add: asl_binary_def)
next
  case (Some a)
  then show ?thesis
    using asl_log_data_console [of "print (PrAntennaBinary a (hex raw) (length raw)) s"
        e "hex raw" raw a "''binary_received''"]
    by (auto simp: asl_binary_def)
qed

lemma asl_received_logged:
  assumes "db_ready s" "current_antenna s = Some a" "insert_fault e = Some x"
  shows "(if x = DbError then {PrMySQLLoggingError x, PrReconnecting} else {PrLoggingError x})
           \<subseteq> set (console (final (asl_received e raw s)))"
proof (cases "utf8_decode raw")
  case None
  then show ?thesis
    using assms
      asl_log_data_logged [of "print (PrAntennaBinary a (hex raw) (length raw))
        (update_stats raw (now e) s)" e x "hex raw" raw a "''binary_received''"]
    by (simp add: asl_received_final asl_binary_def)
next
  case (Some decoded)
  let ?s1 = "print (PrAntennaReceived a (strip decoded) (length raw))
               (update_stats raw (now e) s)"
  let ?r = "asl_log_data e (strip decoded) raw a ''auto_received'' ?s1"
  have logged: "(if x = DbError then {PrMySQLLoggingError x, PrReconnecting}
                 else {PrLoggingError x}) \<subseteq> set (console (final ?r))"
    using assms asl_log_data_logged [of ?s1 e x] by simp
  show ?thesis
  proof (cases "\<exists>s2. ?r = Inl (UnicodeDecodeError, s2)")
    case True
    then show ?thesis
      using Some assms logged asl_binary_console [of "final ?r" e raw]
      by (auto simp: asl_received_final)
  next
    case False
    then show ?thesis
      using Some assms logged by (simp add: asl_received_final)
  qed
qed

lemma asl_insert_logged:
  assumes "port_open s" "db_ready s" "current_antenna s = Some a" "readline_fault e = None"
    and "readline (rx s) = (P, rest)" "P \<noteq> []" "insert_fault e = Some x"
  shows "(if x = DbError then {PrMySQLLoggingError x, PrReconnecting} else {PrLoggingError x})
           \<subseteq> set (console (asl_iteration e s))
       \<and> serial_logs (asl_iteration e s) = serial_logs s"
proof -
  from asl_read_line_final [OF assms(4) assms(5) assms(6)] obtain c where
    "asl_read_line e s =
       (final (asl_received e P (set_rx rest s)))
         \<lparr>console := console (final (asl_received e P (set_rx rest s))) @ c\<rparr>" ..
  moreover have "(if x = DbError then {PrMySQLLoggingError x, PrReconnecting}
                  else {PrLoggingError x})
      \<subseteq> set (console (final (asl_received e P (set_rx rest s))))"
    using assms asl_received_logged [of "set_rx rest s" a e x P] by simp
  ultimately show ?thesis
    using assms by (auto simp: asl_iteration_def asl_read_line_rows asl_received_rows)
qed

subsection \<open>The store after a failed insert\<close>

lemma asl_log_data_Inl:
  "asl_log_data e d raw a ty s = Inl (x, s') \<Longrightarrow>
   insert_fault e = Some DbError \<and> reconnect_fault e = Some x \<and> x \<noteq> DbError"
  by (auto simp: asl_log_data_def reconnect_db_def Let_def
      split: option.splits sum.splits if_splits)

lemma asl_log_data_ready:
  "db_ready (final (asl_log_data e d raw a ty s)) =
     (db_ready s \<and> (insert_fault e = Some DbError \<longrightarrow> reconnect_fault e = None))"
  by (auto simp: asl_log_data_final split: option.splits)

lemma asl_received_ready:
  assumes "db_ready s" "current_antenna s = Some a"
    and "insert_fault e = Some DbError \<longrightarrow> reconnect_fault e = None"
  shows "db_ready (final (asl_received e raw s))"
proof (cases "utf8_decode raw")
  case None
  with assms show ?thesis
    by (simp add: asl_received_final asl_binary_def asl_log_data_ready)
next
  case (Some decoded)
  let ?s1 = "print (PrAntennaReceived a (strip decoded) (length raw))
               (update_stats raw (now e) s)"
  have "\<not> (\<exists>s2. asl_log_data e (strip decoded) raw a ''auto_received'' ?s1
                  = Inl (UnicodeDecodeError, s2))"
    using assms(3) asl_log_data_Inl [of e "strip decoded" raw a "''auto_received''" ?s1]
    by auto
  with Some assms show ?thesis
    by (simp add: asl_received_final asl_log_data_ready)
qed

lemma asl_iteration_ready:
  assumes "db_ready s" "current_antenna s = Some a"
    and "insert_fault e = Some DbError \<longrightarrow> reconnect_fault e = None"
  shows "db_ready (asl_iteration e s)"
proof (cases "port_open s")
  case False
  with assms show ?thesis by (simp add: asl_iteration_def)
next
  case True
  show ?thesis
  proof (rule asl_read_line_cases [of e s])
  qed (use assms True in \<open>simp_all add: asl_iteration_def asl_received_ready\<close>)
qed

lemma asl_poll_ready:
  assumes "db_ready s" "current_antenna s = Some a"
    and "insert_fault e = Some DbError \<longrightarrow> reconnect_fault e = None"
  shows "db_ready (asl_poll tid e s)"
proof (rule asl_poll_cases [of tid s e])
qed (use assms asl_iteration_ready [of s a e] in simp_all)


subsection \<open>A turn of the polling thread under faults\<close>

lemma dsl_poll_pass:
  "is_alive i s \<Longrightarrow> running s \<Longrightarrow>
   \<exists>lar th. dsl_poll i e s = (snd (dsl_iteration e lar s))\<lparr>threads := th\<rparr>"
  by (rule dsl_poll_cases [of i s e]) auto

lemma asl_poll_pass:
  "is_alive j t \<Longrightarrow> running t \<Longrightarrow> asl_poll j e t = asl_iteration e t"
  by (auto simp: asl_poll_def is_alive_def split: option.splits)

lemma poll_keeps_alive:
  "is_alive i s \<Longrightarrow> running s \<Longrightarrow> is_alive i (dsl_poll i e s)"
  "is_alive j t \<Longrightarrow> running t \<Longrightarrow> is_alive j (asl_poll j e t)"
  by (simp_all add: is_alive_iff dsl_poll_tids asl_poll_tids)

lemma dsl_poll_faults:
  assumes "is_alive i s" "running s" "port_open s" "db_ready s"
  shows "in_waiting_fault e = Some x \<longrightarrow>
           error_lines (dsl_poll i e s) = error_lines s @ [PrMonitorLoopError x]"
    and "in_waiting_fault e = None \<and> readline_fault e = Some x \<longrightarrow>
           error_lines (dsl_poll i e s) = error_lines s @ [PrReadError x]"
    and "in_waiting_fault e = None \<and> readline_fault e = None
           \<and> fst (readline (rx s)) \<noteq> [] \<and> insert_fault e = Some x \<longrightarrow>
           error_lines (dsl_poll i e s) = error_lines s @ [PrLoggingError x]
           \<and> serial_logs (dsl_poll i e s) = serial_logs s"
    and "in_waiting_fault e = None \<and> readline_fault e = None
           \<and> fst (readline (rx s)) \<noteq> [] \<and> insert_fault e = None \<longrightarrow>
           length (serial_logs (dsl_poll i e s)) = Suc (length (serial_logs s))"
    and "in_waiting_fault e = None \<and> readline_fault e = None \<and> insert_fault e = None
           \<and> peek_fault e = Some x \<longrightarrow>
           error_lines (dsl_poll i e s) = error_lines s"
proof -
  obtain lar th where p: "dsl_poll i e s = (snd (dsl_iteration e lar s))\<lparr>threads := th\<rparr>"
    using dsl_poll_pass [OF assms(1,2)] by blast
  obtain P rest where rl: "readline (rx s) = (P, rest)" by (cases "readline (rx s)")
  show "in_waiting_fault e = Some x \<longrightarrow>
           error_lines (dsl_poll i e s) = error_lines s @ [PrMonitorLoopError x]"
    using assms p by (simp add: dsl_in_waiting_logged)
  show "in_waiting_fault e = None \<and> readline_fault e = Some x \<longrightarrow>
           error_lines (dsl_poll i e s) = error_lines s @ [PrReadError x]"
    using assms p by (simp add: dsl_readline_logged)
  show "in_waiting_fault e = None \<and> readline_fault e = None
           \<and> fst (readline (rx s)) \<noteq> [] \<and> insert_fault e = Some x \<longrightarrow>
           error_lines (dsl_poll i e s) = error_lines s @ [PrLoggingError x]
           \<and> serial_logs (dsl_poll i e s) = serial_logs s"
    using assms p rl dsl_insert_logged [of s e P rest x lar] by simp
  show "in_waiting_fault e = None \<and> readline_fault e = None
           \<and> fst (readline (rx s)) \<noteq> [] \<and> insert_fault e = None \<longrightarrow>
           length (serial_logs (dsl_poll i e s)) = Suc (length (serial_logs s))"
    using assms p rl dsl_stores [of e s P rest lar] by simp
  show "in_waiting_fault e = None \<and> readline_fault e = None \<and> insert_fault e = None
           \<and> peek_fault e = Some x \<longrightarrow>
           error_lines (dsl_poll i e s) = error_lines s"
    using assms p by (simp add: dsl_iteration_errors)
qed

lemma asl_poll_faults:
  assumes "is_alive j t" "running t" "port_open t" "db_ready t" "current_antenna t = Some a"
  shows "readline_fault e = Some x \<longrightarrow>
           error_lines (asl_poll j e t) = error_lines t @ [PrReadError x]"
    and "readline_fault e = None \<and> fst (readline (rx t)) \<noteq> [] \<and> insert_fault e = Some x \<longrightarrow>
           (if x = DbError then {PrMySQLLoggingError x, PrReconnecting}
            else {PrLoggingError x}) \<subseteq> set (console (asl_poll j e t))
           \<and> serial_logs (asl_poll j e t) = serial_logs t"
    and "readline_fault e = None \<and> fst (readline (rx t)) \<noteq> [] \<and> insert_fault e = None \<longrightarrow>
           length (serial_logs (asl_poll j e t)) = Suc (length (serial_logs t))"
proof -
  have p: "asl_poll j e t = asl_iteration e t"
    using assms(1,2) by (rule asl_poll_pass)
  obtain P rest where rl: "readline (rx t) = (P, rest)" by (cases "readline (rx t)")
  show "readline_fault e = Some x \<longrightarrow>
           error_lines (asl_poll j e t) = error_lines t @ [PrReadError x]"
    using assms p by (simp add: asl_readline_logged)
  show "readline_fault e = None \<and> fst (readline (rx t)) \<noteq> [] \<and> insert_fault e = Some x \<longrightarrow>
           (if x = DbError then {PrMySQLLoggingError x, PrReconnecting}
            else {PrLoggingError x}) \<subseteq> set (console (asl_poll j e t))
           \<and> serial_logs (asl_poll j e t) = serial_logs t"
    using assms p rl asl_insert_logged [of t a e P rest x] by simp
  show "readline_fault e = None \<and> fst (readline (rx t)) \<noteq> [] \<and> insert_fault e = None \<longrightarrow>
           length (serial_logs (asl_poll j e t)) = Suc (length (serial_logs t))"
    using assms p rl asl_stores [of e t P rest a] by simp
qed

text \<open>
  What holds of a turn under faults. Let a polling thread be alive with \<^verbatim>\<open>running\<close> set,
  the port open and the store connected. Whatever the port and the store raise during a
  turn of the thread, the turn ends with the thread alive, \<^verbatim>\<open>running\<close> set and the port
  open. A fault of \<^verbatim>\<open>in_waiting\<close>, of \<^verbatim>\<open>readline\<close> or of the insert is printed, and the record
  of a failed insert is lost; a fault of the single byte read of \<^verbatim>\<open>script.py\<close> is caught by
  \<^verbatim>\<open>except: pass\<close> and prints nothing. A thread leaves only in a step after which
  \<^verbatim>\<open>running\<close> is false. In \<^verbatim>\<open>script.py\<close> the store stays connected. In \<^verbatim>\<open>script2.py\<close> the
  driver's \<^verbatim>\<open>Error\<close> leads to one attempt to connect again, and the store is connected
  after the turn when that attempt succeeds. With a connected store and no fault, a turn
  that reads a payload adds its row.
\<close>

theorem faults_do_not_end_polling:
  assumes "is_alive i s" and "running s" and "port_open s" and "db_ready s"
    and "is_alive j t" and "running t" and "port_open t" and "db_ready t"
    and "current_antenna t = Some a"
  shows "is_alive i (dsl_poll i e s) \<and> running (dsl_poll i e s)
       \<and> port_open (dsl_poll i e s) \<and> db_ready (dsl_poll i e s)
       \<and> is_alive j (asl_poll j e t) \<and> running (asl_poll j e t)
       \<and> port_open (asl_poll j e t) \<and> current_antenna (asl_poll j e t) = Some a
       \<and> ((insert_fault e = Some DbError \<longrightarrow> reconnect_fault e = None) \<longrightarrow>
            db_ready (asl_poll j e t))
       \<and> (\<not> is_alive i (dsl_step s ev) \<longrightarrow> \<not> running (dsl_step s ev))
       \<and> (\<not> is_alive j (asl_step t ev') \<longrightarrow> \<not> running (asl_step t ev'))
       \<and> (in_waiting_fault e = Some x \<longrightarrow>
            error_lines (dsl_poll i e s) = error_lines s @ [PrMonitorLoopError x])
       \<and> (in_waiting_fault e = None \<and> readline_fault e = Some x \<longrightarrow>
            error_lines (dsl_poll i e s) = error_lines s @ [PrReadError x])
       \<and> (in_waiting_fault e = None \<and> readline_fault e = None
            \<and> fst (readline (rx s)) \<noteq> [] \<and> insert_fault e = Some x \<longrightarrow>
            error_lines (dsl_poll i e s) = error_lines s @ [PrLoggingError x]
            \<and> serial_logs (dsl_poll i e s) = serial_logs s)
       \<and> (in_waiting_fault e = None \<and> readline_fault e = None
            \<and> fst (readline (rx s)) \<noteq> [] \<and> insert_fault e = None \<longrightarrow>
            length (serial_logs (dsl_poll i e s)) = Suc (length (serial_logs s)))
       \<and> (in_waiting_fault e = None \<and> readline_fault e = None \<and> insert_fault e = None
            \<and> peek_fault e = Some x \<longrightarrow>
            error_lines (dsl_poll i e s) = error_lines s)
       \<and> (readline_fault e = Some x \<longrightarrow>
            error_lines (asl_poll j e t) = error_lines t @ [PrReadError x])
       \<and> (readline_fault e = None \<and> fst (readline (rx t)) \<noteq> [] \<and> insert_fault e = Some x \<longrightarrow>
            (if x = DbError then {PrMySQLLoggingError x, PrReconnecting}
             else {PrLoggingError x}) \<subseteq> set (console (asl_poll j e t))
            \<and> serial_logs (asl_poll j e t) = serial_logs t)
       \<and> (readline_fault e = None \<and> fst (readline (rx t)) \<noteq> [] \<and> insert_fault e = None \<longrightarrow>
            length (serial_logs (asl_poll j e t)) = Suc (length (serial_logs t)))"
proof -
  have alive: "is_alive i (dsl_poll i e s)" "is_alive j (asl_poll j e t)"
    using assms by (simp_all add: poll_keeps_alive)
  have ready: "(insert_fault e = Some DbError \<longrightarrow> reconnect_fault e = None) \<longrightarrow>
      db_ready (asl_poll j e t)"
    using assms asl_poll_ready [of t a e j] by blast
  have leave: "\<not> is_alive i (dsl_step s ev) \<longrightarrow> \<not> running (dsl_step s ev)"
    "\<not> is_alive j (asl_step t ev') \<longrightarrow> \<not> running (asl_step t ev')"
    using assms dsl_step_leaves [of i s ev] asl_step_leaves [of j t ev'] by blast+
  note d1 = dsl_poll_faults(1) [OF assms(1-4), where e = e and x = x]
  note d2 = dsl_poll_faults(2) [OF assms(1-4), where e = e and x = x]
  note d3 = dsl_poll_faults(3) [OF assms(1-4), where e = e and x = x]
  note d4 = dsl_poll_faults(4) [OF assms(1-4), where e = e]
  note d5 = dsl_poll_faults(5) [OF assms(1-4), where e = e and x = x]
  note a1 = asl_poll_faults(1) [OF assms(5-9), where e = e and x = x]
  note a2 = asl_poll_faults(2) [OF assms(5-9), where e = e and x = x]
  note a3 = asl_poll_faults(3) [OF assms(5-9), where e = e]
  show ?thesis
    using assms alive ready leave d1 d2 d3 d4 d5 a1 a2 a3 by simp
qed

text \<open>
  The insert fails for a first payload and works for a second: both are counted, the
  second is stored, the failure is printed, and the thread is alive with \<^verbatim>\<open>running\<close>
  set. In \<^verbatim>\<open>script2.py\<close> the attempt to connect again succeeds here.
\<close>

theorem faults_do_not_end_polling_witness:
  "is_alive 0 (dsl_poll 0 ((quiet 0)\<lparr>insert_fault := Some DbError\<rparr>)
                 (deliver binary dsl_monitoring))
   \<and> running (dsl_poll 0 ((quiet 0)\<lparr>insert_fault := Some DbError\<rparr>)
                 (deliver binary dsl_monitoring))
   \<and> error_lines (dsl_poll 0 ((quiet 0)\<lparr>insert_fault := Some DbError\<rparr>)
                 (deliver binary dsl_monitoring)) = [PrLoggingError DbError]
   \<and> map data (serial_logs (dsl_poll 0 (quiet 1) (deliver hello
        (dsl_poll 0 ((quiet 0)\<lparr>insert_fault := Some DbError\<rparr>)
           (deliver binary dsl_monitoring))))) = [str ''hello'']
   \<and> is_alive 0 (asl_poll 0 ((quiet 0)\<lparr>insert_fault := Some DbError\<rparr>)
                 (deliver binary (asl_monitoring 2)))
   \<and> running (asl_poll 0 ((quiet 0)\<lparr>insert_fault := Some DbError\<rparr>)
                 (deliver binary (asl_monitoring 2)))
   \<and> db_ready (asl_poll 0 ((quiet 0)\<lparr>insert_fault := Some DbError\<rparr>)
                 (deliver binary (asl_monitoring 2)))
   \<and> map data (serial_logs (asl_poll 0 (quiet 1) (deliver hello
        (asl_poll 0 ((quiet 0)\<lparr>insert_fault := Some DbError\<rparr>)
           (deliver binary (asl_monitoring 2)))))) = [str ''hello'']"
proof -
  have pre: "is_alive 0 (deliver binary dsl_monitoring)"
    "is_alive 0 (deliver binary (asl_monitoring 2))"
    by (simp_all add: is_alive_def)
  have second:
    "map data (serial_logs (dsl_poll 0 (quiet 1) (deliver hello
        (dsl_poll 0 ((quiet 0)\<lparr>insert_fault := Some DbError\<rparr>)
           (deliver binary dsl_monitoring))))) = [str ''hello'']"
    "map data (serial_logs (asl_poll 0 (quiet 1) (deliver hello
        (asl_poll 0 ((quiet 0)\<lparr>insert_fault := Some DbError\<rparr>)
           (deliver binary (asl_monitoring 2)))))) = [str ''hello'']"
    by (simp_all add: dsl_monitoring_eq asl_monitoring_eq run_defs hello_def binary_def
        Let_def str_def strip_def rstrip_def isspace_def)
  show ?thesis
    using faults_do_not_end_polling [of 0 "deliver binary dsl_monitoring" 0
        "deliver binary (asl_monitoring 2)" 2 "(quiet 0)\<lparr>insert_fault := Some DbError\<rparr>"
        _ _ DbError] pre second
    by (simp add: quiet_def)
qed

subsection \<open>A connection that is closed stays closed\<close>

lemma asl_binary_closed:
  "\<not> db_ready s \<Longrightarrow> \<not> db_ready (final (asl_binary e raw s))"
  by (cases "current_antenna s") (simp_all add: asl_binary_def asl_log_data_ready)

lemma asl_received_closed:
  "\<not> db_ready s \<Longrightarrow> \<not> db_ready (final (asl_received e raw s))"
  by (simp add: asl_received_final asl_binary_closed asl_log_data_ready split: option.splits)

lemma asl_iteration_closed:
  assumes "\<not> db_ready s"
  shows "\<not> db_ready (asl_iteration e s) \<and> serial_logs (asl_iteration e s) = serial_logs s"
proof (cases "port_open s")
  case False
  with assms show ?thesis by (simp add: asl_iteration_def)
next
  case True
  have "\<not> db_ready (asl_read_line e s)"
  proof (rule asl_read_line_cases [of e s])
  qed (use assms in \<open>simp_all add: asl_received_closed\<close>)
  moreover have "serial_logs (asl_read_line e s) = serial_logs s"
    using assms by (simp add: asl_read_line_rows asl_received_rows split: option.splits)
  ultimately show ?thesis using True by (simp add: asl_iteration_def)
qed

lemma asl_step_closed:
  assumes "\<not> db_ready s"
  shows "\<not> db_ready (asl_step s ev) \<and> serial_logs (asl_step s ev) = serial_logs s"
proof (cases ev)
  case (APoll i e)
  show ?thesis
  proof (rule asl_poll_cases [of i s e])
  qed (use APoll assms asl_iteration_closed [of s e] in simp_all)
next
  case (AStop need)
  then show ?thesis by (simp add: asl_stop_snd)
qed (use assms in \<open>auto simp: db_ready_def deliver_def connect_def asl_start_monitoring_def
      set_antenna_def cmd_start_def ctrl_c_def asl_show_stats_def show_stats_def print_def
      split: option.splits\<close>)

lemma asl_closed_forever:
  "\<not> db_ready s \<Longrightarrow>
   \<not> db_ready (asl_run s evs) \<and> serial_logs (asl_run s evs) = serial_logs s"
proof (induction evs arbitrary: s)
  case Nil
  then show ?case by simp
next
  case (Cons ev evs)
  from asl_step_closed [OF Cons.prems, of ev] Cons.IH [of "asl_step s ev"]
  show ?case by simp
qed

text \<open>
  Claim C3. Every fault raised inside a polling iteration is to be caught and logged, the
  polling task is to end only when it finds \<^verbatim>\<open>running\<close> false, and after a failed insert
  the loop is to keep polling, the networked variant with one attempt to connect again,
  so that subsequent payloads are still processed and stored.

  \<^verbatim>\<open>script2.py\<close> does not keep the last part. The comment in \<^verbatim>\<open>log_data\<close> says
  \<^verbatim>\<open>Try to reconnect if connection was lost\<close>, but \<^verbatim>\<open>reconnect_db\<close> is called only from the
  handler of an insert that was attempted, and the guard \<^verbatim>\<open>is_connected()\<close> in front of the
  insert lets no insert be attempted on a lost connection. When the store is down for
  the insert of one payload and for the attempt to connect again, the connection is
  closed from then on: the next payload, with nothing raising any more, is read and
  counted, no row is stored and no line is printed about it; and whatever events follow,
  the connection stays closed and the table gets no row.
\<close>

theorem payloads_lost_after_failed_reconnect:
  "running (asl_poll 0 (db_down 0) (deliver hello (asl_monitoring 2)))
   \<and> is_alive 0 (asl_poll 0 (db_down 0) (deliver hello (asl_monitoring 2)))
   \<and> \<not> db_ready (asl_poll 0 (db_down 0) (deliver hello (asl_monitoring 2)))
   \<and> rx (deliver hello (asl_poll 0 (db_down 0) (deliver hello (asl_monitoring 2)))) = hello
   \<and> serial_logs (asl_poll 0 (quiet 1)
        (deliver hello (asl_poll 0 (db_down 0) (deliver hello (asl_monitoring 2))))) = []
   \<and> messages_received (stats (asl_poll 0 (quiet 1)
        (deliver hello (asl_poll 0 (db_down 0) (deliver hello (asl_monitoring 2)))))) = 2
   \<and> error_lines (asl_poll 0 (quiet 1)
        (deliver hello (asl_poll 0 (db_down 0) (deliver hello (asl_monitoring 2)))))
      = [PrMySQLLoggingError DbError, PrReconnectFailed DbError]
   \<and> \<not> db_ready (asl_run (asl_poll 0 (db_down 0) (deliver hello (asl_monitoring 2))) evs)
   \<and> serial_logs (asl_run (asl_poll 0 (db_down 0) (deliver hello (asl_monitoring 2))) evs)
      = []"
proof -
  have first: "running (asl_poll 0 (db_down 0) (deliver hello (asl_monitoring 2)))
     \<and> is_alive 0 (asl_poll 0 (db_down 0) (deliver hello (asl_monitoring 2)))
     \<and> \<not> db_ready (asl_poll 0 (db_down 0) (deliver hello (asl_monitoring 2)))
     \<and> serial_logs (asl_poll 0 (db_down 0) (deliver hello (asl_monitoring 2))) = []"
    by (simp add: asl_monitoring_eq run_defs hello_def Let_def)
  have second: "rx (deliver hello (asl_poll 0 (db_down 0) (deliver hello (asl_monitoring 2))))
       = hello
     \<and> serial_logs (asl_poll 0 (quiet 1)
          (deliver hello (asl_poll 0 (db_down 0) (deliver hello (asl_monitoring 2))))) = []
     \<and> messages_received (stats (asl_poll 0 (quiet 1)
          (deliver hello (asl_poll 0 (db_down 0) (deliver hello (asl_monitoring 2)))))) = 2
     \<and> error_lines (asl_poll 0 (quiet 1)
          (deliver hello (asl_poll 0 (db_down 0) (deliver hello (asl_monitoring 2)))))
        = [PrMySQLLoggingError DbError, PrReconnectFailed DbError]"
    by (simp add: asl_monitoring_eq run_defs hello_def Let_def error_lines_def)
  from first
    asl_closed_forever [of "asl_poll 0 (db_down 0) (deliver hello (asl_monitoring 2))" evs]
  have "\<not> db_ready (asl_run (asl_poll 0 (db_down 0) (deliver hello (asl_monitoring 2))) evs)
     \<and> serial_logs (asl_run (asl_poll 0 (db_down 0) (deliver hello (asl_monitoring 2))) evs)
        = []"
    by simp
  with first second show ?thesis by simp
qed

section \<open>Starting and stopping\<close>

lemma dsl_step_threads:
  "length (threads (dsl_step s ev)) \<le>
     (if ev = DStart \<and> \<not> running s then Suc (length (threads s)) else length (threads s))"
proof (cases ev)
  case (DPoll i e)
  have "length (map fst (threads (dsl_poll i e s))) \<le> length (map fst (threads s))"
    unfolding dsl_poll_tids by simp
  with DPoll show ?thesis by simp
next
  case (DStop need)
  then show ?thesis
    by (simp add: dsl_stop_snd join_def thread_exit_def split: option.splits)
qed (auto simp: deliver_def connect_def dsl_start_monitoring_def send_command_def
      test_connection_def Let_def print_def split: option.splits)

lemma asl_step_threads:
  "length (threads (asl_step s ev)) \<le>
     (if (ev = ACmdStart \<or> (\<exists>n. ev = AStart n)) \<and> \<not> running s
      then Suc (length (threads s)) else length (threads s))"
proof (cases ev)
  case (APoll i e)
  have "length (map fst (threads (asl_poll i e s))) \<le> length (map fst (threads s))"
    unfolding asl_poll_tids by simp
  with APoll show ?thesis by simp
next
  case (AStop need)
  then show ?thesis
    by (simp add: asl_stop_snd join_def thread_exit_def split: option.splits)
qed (auto simp: deliver_def connect_def asl_start_monitoring_def set_antenna_def
      cmd_start_def ctrl_c_def asl_show_stats_def show_stats_def print_def
      split: option.splits)

text \<open>
  Claim C5, as the code has it. \<^verbatim>\<open>start_monitoring\<close> on a logger whose \<^verbatim>\<open>running\<close> is set
  prints \<^verbatim>\<open>Monitoring already active\<close> and returns as any other call does: no exception is
  raised, no thread is created, and flag, thread handle, statistics and the other
  attributes stay as they are. The flag is the only guard. A call on a logger at rest
  creates one thread; and as long as no thread is alive while the flag is cleared, no
  step of a run leads to more than one polling thread. The scripts do not make sure of
  that: see the counterexample.
\<close>

theorem start_while_running:
  assumes "running s" and "running t"
    and "length (threads u) \<le> 1" and "running u \<or> threads u = []"
    and "length (threads v) \<le> 1" and "running v \<or> threads v = []"
  shows "dsl_start_monitoring s = print PrAlreadyActive s
       \<and> asl_start_monitoring a t = print PrAlreadyActive t
       \<and> attrs (dsl_start_monitoring s) = attrs s
       \<and> threads (dsl_start_monitoring s) = threads s
       \<and> spawned (dsl_start_monitoring s) = spawned s
       \<and> attrs (asl_start_monitoring a t) = attrs t
       \<and> threads (asl_start_monitoring a t) = threads t
       \<and> spawned (asl_start_monitoring a t) = spawned t
       \<and> length (threads (dsl_step u ev)) \<le> 1
       \<and> length (threads (asl_step v ev')) \<le> 1"
proof -
  have "length (threads (dsl_step u ev)) \<le> 1"
    using assms(3,4) dsl_step_threads [of u ev] by (auto split: if_splits)
  moreover have "length (threads (asl_step v ev')) \<le> 1"
    using assms(5,6) asl_step_threads [of v ev'] by (auto split: if_splits)
  ultimately show ?thesis
    using assms(1,2)
    by (simp add: dsl_start_monitoring_def asl_start_monitoring_def attrs_def)
qed

text \<open>
  A second \<^verbatim>\<open>start_monitoring\<close> on the monitoring loggers, and a first one on the connected
  logger of \<^verbatim>\<open>script.py\<close>.
\<close>

theorem start_while_running_witness:
  "threads (dsl_start_monitoring dsl_monitoring) = [(0, None)]
   \<and> threads (asl_start_monitoring 1 (asl_monitoring 2)) = [(0, None)]
   \<and> current_antenna (asl_start_monitoring 1 (asl_monitoring 2)) = Some 2
   \<and> last (console (dsl_start_monitoring dsl_monitoring)) = PrAlreadyActive
   \<and> length (threads (dsl_step dsl_connected DStart)) \<le> 1
   \<and> length (threads (asl_step (asl_monitoring 2) (AStart 1))) \<le> 1"
proof -
  have c: "running dsl_connected \<or> threads dsl_connected = []"
    "length (threads dsl_connected) \<le> 1"
    by (simp_all add: dsl_connected_def dsl_run_def dsl_init_def connect_def print_def)
  show ?thesis
    using start_while_running [of dsl_monitoring "asl_monitoring 2" dsl_connected
        "asl_monitoring 2" 1 DStart "AStart 1"] c
    by (simp add: dsl_monitoring_eq asl_monitoring_eq attrs_def)
qed

text \<open>
  Two polling threads at once. In \<^verbatim>\<open>script2.py\<close>: the command \<^verbatim>\<open>start\<close>, Ctrl+C, which clears
  the flag without waiting for the thread, and \<^verbatim>\<open>start\<close> again before the first thread
  has tested the flag; both threads then find the flag set and go on polling. In
  \<^verbatim>\<open>script.py\<close>: \<^verbatim>\<open>stop\<close> whose \<^verbatim>\<open>join\<close> runs into its timeout, and \<^verbatim>\<open>start_monitoring\<close>
  after it.
\<close>

theorem two_polling_threads_counterexample:
  "map fst (threads (asl_run asl_fresh [AConnect None, ACmdStart, ACtrlC, ACmdStart])) = [0, 1]
   \<and> running (asl_run asl_fresh [AConnect None, ACmdStart, ACtrlC, ACmdStart])
   \<and> map fst (threads (asl_run asl_fresh
        [AConnect None, ACmdStart, ACtrlC, ACmdStart, APoll 0 (quiet 0), APoll 1 (quiet 0)]))
       = [0, 1]
   \<and> map fst (threads (dsl_run (dsl_init []) [DConnect None, DStart, DStop 3000, DStart]))
       = [0, 1]
   \<and> running (dsl_run (dsl_init []) [DConnect None, DStart, DStop 3000, DStart])"
  by (simp add: asl_fresh_def asl_init_def dsl_init_def connect_def cmd_start_def
      ctrl_c_def asl_start_monitoring_def dsl_start_monitoring_def dsl_stop_def join_def
      is_alive_def show_stats_def close_db_def close_port_def print_def asl_poll_def
      asl_iteration_def asl_read_line_def port_open_def rx_def set_rx_def quiet_def)


subsection \<open>\<^verbatim>\<open>stop\<close>\<close>







lemma stop_rows:
  "serial_logs (snd (dsl_stop need s)) = serial_logs s"
  "serial_logs (snd (asl_stop need s)) = serial_logs s"
  by (simp_all add: dsl_stop_snd asl_stop_snd)








section \<open>The antenna\<close>

lemma asl_iteration_rows:
  "serial_logs (asl_iteration e s) = serial_logs s
   \<or> (\<exists>r. serial_logs (asl_iteration e s) = serial_logs s @ [r]
          \<and> antenna r = current_antenna s)"
proof (cases "current_antenna s")
  case None
  then show ?thesis
    by (simp add: asl_iteration_def asl_read_line_rows asl_received_rows)
next
  case (Some a)
  then show ?thesis
    by (cases "utf8_decode (fst (readline (rx s)))")
       (simp_all add: asl_iteration_def asl_read_line_rows asl_received_rows)
qed

lemma asl_step_rows:
  "serial_logs (asl_step s ev) = serial_logs s
   \<or> (\<exists>r. serial_logs (asl_step s ev) = serial_logs s @ [r]
          \<and> antenna r = current_antenna s)"
proof (cases ev)
  case (APoll i e)
  show ?thesis
  proof (rule asl_poll_cases [of i s e])
  qed (use APoll asl_iteration_rows [of e s] in auto)
next
  case (AStop need)
  then show ?thesis by (simp add: stop_rows)
qed (auto simp: deliver_def connect_def asl_start_monitoring_def set_antenna_def
      cmd_start_def ctrl_c_def split: option.splits)

lemma asl_step_antenna:
  "\<not> assigns_antenna ev \<Longrightarrow> current_antenna s = Some a \<Longrightarrow>
   current_antenna (asl_step s ev) = Some a"
  by (cases ev)
     (auto simp: deliver_def connect_def asl_start_monitoring_def cmd_start_def ctrl_c_def
        asl_stop_snd split: option.splits)

lemma asl_step_antenna_ok: "antenna_ok s \<Longrightarrow> antenna_ok (asl_step s ev)"
  by (cases ev)
     (auto simp: antenna_ok_def deliver_def connect_def asl_start_monitoring_def
        set_antenna_def cmd_start_def ctrl_c_def asl_stop_snd split: option.splits)

lemma asl_run_antenna_ok: "antenna_ok s \<Longrightarrow> antenna_ok (asl_run s evs)"
  by (induction evs arbitrary: s) (simp_all add: asl_step_antenna_ok)

lemma asl_run_rows:
  assumes "current_antenna s = Some a" "\<forall>ev \<in> set evs. \<not> assigns_antenna ev"
  shows "current_antenna (asl_run s evs) = Some a
       \<and> (\<exists>new. serial_logs (asl_run s evs) = serial_logs s @ new
              \<and> (\<forall>r \<in> set new. antenna r = Some a))"
  using assms
proof (induction evs arbitrary: s)
  case Nil
  then show ?case by simp
next
  case (Cons ev evs)
  let ?s1 = "asl_step s ev"
  have a1: "current_antenna ?s1 = Some a"
    using Cons.prems by (simp add: asl_step_antenna)
  from Cons.IH [OF a1] Cons.prems obtain new where
    run: "current_antenna (asl_run ?s1 evs) = Some a"
      "serial_logs (asl_run ?s1 evs) = serial_logs ?s1 @ new"
      "\<forall>r \<in> set new. antenna r = Some a"
    by auto
  from asl_step_rows [of s ev] Cons.prems(1) obtain first where
    "serial_logs ?s1 = serial_logs s @ first" "\<forall>r \<in> set first. antenna r = Some a"
    by (metis append_Nil2 empty_iff empty_set set_ConsD)
  with run show ?case
    by (auto intro!: exI [of _ "first @ new"])
qed

text \<open>
  Claim C7, as the code has it. \<^verbatim>\<open>__init__\<close> does not set the antenna: the attribute is
  missing until \<^verbatim>\<open>set_antenna\<close> or \<^verbatim>\<open>start_monitoring\<close> assigns it (\<^verbatim>\<open>show_stats\<close> then prints
  \<^verbatim>\<open>Not set\<close>), and the default 1 comes from the command \<^verbatim>\<open>start\<close> and from the parameter of
  \<^verbatim>\<open>start_monitoring\<close>. \<^verbatim>\<open>set_antenna\<close> takes 1 and 2 only, and \<^verbatim>\<open>start_monitoring\<close> assigns
  its argument when it starts, so the antenna, once set, is 1 or 2 throughout a run.
  Once the antenna is \<open>a\<close>, every row stored until the next call that is given an antenna
  number (\<^verbatim>\<open>set_antenna\<close>, \<^verbatim>\<open>start_monitoring\<close>) carries \<open>a\<close>; the command \<^verbatim>\<open>start\<close> passes the
  antenna that is set.
\<close>

theorem antenna_of_stored_rows:
  assumes "current_antenna t = Some a" and "\<forall>ev \<in> set evs. \<not> assigns_antenna ev"
  shows "map_option current_antenna (asl_init False old) = Some None
       \<and> (current_antenna u = None \<and> \<not> running u \<longrightarrow> current_antenna (cmd_start u) = Some 1)
       \<and> (\<not> running t \<longrightarrow> current_antenna (cmd_start t) = Some a)
       \<and> current_antenna (snd (set_antenna n u)) =
           (if n = 1 \<or> n = 2 then Some n else current_antenna u)
       \<and> current_antenna (asl_start_monitoring n u) =
           (if \<not> running u \<and> (n = 1 \<or> n = 2) then Some n else current_antenna u)
       \<and> antenna_ok (asl_run asl_fresh evs')
       \<and> current_antenna (asl_run t evs) = Some a
       \<and> take (length (serial_logs t)) (serial_logs (asl_run t evs)) = serial_logs t
       \<and> (\<forall>r \<in> set (new_rows t (asl_run t evs)). antenna r = Some a)"
proof -
  have fresh: "antenna_ok asl_fresh"
    by (simp add: antenna_ok_def asl_fresh_def asl_init_def)
  from asl_run_rows [OF assms] obtain new where
    "current_antenna (asl_run t evs) = Some a"
    "serial_logs (asl_run t evs) = serial_logs t @ new"
    "\<forall>r \<in> set new. antenna r = Some a"
    by blast
  then show ?thesis
    using assms(1) asl_run_antenna_ok [OF fresh, of evs']
    by (auto simp: new_rows_def asl_init_def cmd_start_def asl_start_monitoring_def
        set_antenna_def)
qed

text \<open>
  The commands \<^verbatim>\<open>antenna 2\<close> and \<^verbatim>\<open>start\<close>, then two payloads, one text and one binary: both
  rows carry antenna 2.
\<close>

theorem antenna_of_stored_rows_witness:
  "map antenna (serial_logs (asl_run (asl_monitoring 2)
       [ARx hello, APoll 0 (quiet 0), ARx binary, APoll 0 (quiet 1)])) = [Some 2, Some 2]
   \<and> current_antenna (asl_run (asl_monitoring 2)
       [ARx hello, APoll 0 (quiet 0), ARx binary, APoll 0 (quiet 1)]) = Some 2"
proof -
  have rows: "map data_type (serial_logs (asl_run (asl_monitoring 2)
       [ARx hello, APoll 0 (quiet 0), ARx binary, APoll 0 (quiet 1)]))
       = [''auto_received'', ''binary_received'']"
    by (simp add: asl_monitoring_eq run_defs hello_def binary_def Let_def)
  then have two: "length (serial_logs (asl_run (asl_monitoring 2)
       [ARx hello, APoll 0 (quiet 0), ARx binary, APoll 0 (quiet 1)])) = 2"
    by (metis length_map length_Cons list.size(3) numeral_2_eq_2)
  have start: "current_antenna (asl_monitoring 2) = Some 2" "serial_logs (asl_monitoring 2) = []"
    by (simp_all add: asl_monitoring_eq)
  have "\<forall>r \<in> set (serial_logs (asl_run (asl_monitoring 2)
       [ARx hello, APoll 0 (quiet 0), ARx binary, APoll 0 (quiet 1)])). antenna r = Some 2"
    using antenna_of_stored_rows [of "asl_monitoring 2" 2
        "[ARx hello, APoll 0 (quiet 0), ARx binary, APoll 0 (quiet 1)]"] start
    by (simp add: new_rows_def)
  with two show ?thesis
    using antenna_of_stored_rows [of "asl_monitoring 2" 2
        "[ARx hello, APoll 0 (quiet 0), ARx binary, APoll 0 (quiet 1)]"] start
    by (cases "serial_logs (asl_run (asl_monitoring 2)
          [ARx hello, APoll 0 (quiet 0), ARx binary, APoll 0 (quiet 1)])";
        cases "tl (serial_logs (asl_run (asl_monitoring 2)
          [ARx hello, APoll 0 (quiet 0), ARx binary, APoll 0 (quiet 1)]))") auto
qed

text \<open>
  A new \<^verbatim>\<open>AntennaSerialLogger\<close> has no antenna, and \<^verbatim>\<open>show_stats\<close> on it prints
  \<^verbatim>\<open>Current antenna: Not set\<close>.
\<close>

theorem antenna_missing_counterexample:
  "map_option current_antenna (asl_init False []) = Some None
   \<and> map_option (\<lambda>l. last (console (asl_show_stats l))) (asl_init False [])
       = Some (PrCurrentAntenna None)"
  by (simp add: asl_init_def asl_show_stats_def show_stats_def print_def)

end
